theory Spec2Isabelle
  imports Complex_Main "HOL-Library.Char_ord" "HOL-Library.List_Lexorder"
begin

section \<open>JavaScript strings and values\<close>

text \<open>
  The module \<^verbatim>\<open>BookRooms\<close> (bookRooms.js) works on JavaScript strings throughout: room
  numbers, dates in the form yyyy-mm-dd and error messages. A JavaScript string is
  modelled as a \<^typ>\<open>string\<close>, one \<^typ>\<open>char\<close> per code unit (so the model covers the code
  units below 256). The operators \<^verbatim>\<open><\<close> and \<^verbatim>\<open>>\<close> on two strings compare them code unit by
  code unit, a proper prefix being smaller: this is the lexicographic order on lists over
  the order of characters by their code, which is the order \<open><\<close> on \<^typ>\<open>string\<close> here.
  The operator \<^verbatim>\<open>===\<close> on two strings is equality.
\<close>

text \<open>
  What jQuery's \<^verbatim>\<open>.val()\<close> returns for a form control: a string, \<^verbatim>\<open>null\<close> (a select with no
  option selected) or \<^verbatim>\<open>undefined\<close> (no such element).
\<close>

datatype jsval = Undefined | Null | Str string

text \<open>The string a value becomes when it is concatenated to a string with \<^verbatim>\<open>+\<close>.\<close>

fun ToString :: "jsval \<Rightarrow> string" where
  "ToString Undefined = ''undefined''"
| "ToString Null = ''null''"
| "ToString (Str s) = s"

text \<open>The truth value of a string in a condition: only the empty string is false.\<close>

definition truthy :: "string \<Rightarrow> bool" where
  "truthy s = (s \<noteq> [])"

section \<open>The availability check\<close>

text \<open>A booking as \<^verbatim>\<open>parseBookingXML\<close> builds it: three strings.\<close>

record booking =
  number :: string
  checkin :: string
  checkout :: string

text \<open>
  \<^verbatim>\<open>checkAvailable(room, checkin, checkout, bookings)\<close>: the loop over the bookings, which
  returns false at the first booking of the room that overlaps the request and true when
  the list is exhausted.
\<close>

fun checkAvailable :: "string \<Rightarrow> string \<Rightarrow> string \<Rightarrow> booking list \<Rightarrow> bool" where
  "checkAvailable room ci co [] = True"
| "checkAvailable room ci co (b # bs) =
     (if number b = room then
        (if checkin b < co \<and> checkout b > ci then False
         else checkAvailable room ci co bs)
      else checkAvailable room ci co bs)"

section \<open>Numbers and strings\<close>

text \<open>
  \<^verbatim>\<open>getTodaysDate\<close> concatenates numbers to strings. The numbers there are integers (the
  parts of a \<^verbatim>\<open>Date\<close>, all far below \<open>10 ^ 21\<close> in size), and the string of such an
  integer is its decimal numeral, with a minus sign when it is negative.
\<close>

definition digit_char :: "nat \<Rightarrow> char" where
  "digit_char n = char_of (48 + n)"

fun string_of_nat :: "nat \<Rightarrow> string" where
  "string_of_nat n =
     (if n < 10 then [digit_char n] else string_of_nat (n div 10) @ [digit_char (n mod 10)])"

definition NumberToString :: "int \<Rightarrow> string" where
  "NumberToString i =
     (if i < 0 then CHR ''-'' # string_of_nat (nat (- i)) else string_of_nat (nat i))"

text \<open>
  \<^verbatim>\<open>makeDateFromXML\<close> compares a string with the number 10 (\<^verbatim>\<open>dd < 10\<close>): JavaScript
  converts the string to a number first (StringToNumber of ECMAScript) and the comparison
  is false when the string is not a numeric literal (NaN). The conversion is modelled in
  full for the code units below 256: white space is trimmed at both ends, the empty string
  is 0, and what remains must be a decimal literal (an optional sign, digits with an
  optional fraction and exponent, or \<^verbatim>\<open>Infinity\<close>) or an unsigned hexadecimal, octal or
  binary integer literal.
\<close>

definition is_ws :: "char \<Rightarrow> bool" where
  "is_ws c = (c \<in> {CHR 0x09, CHR 0x0A, CHR 0x0B, CHR 0x0C, CHR 0x0D, CHR 0x20, CHR 0xA0})"

definition trim_ws :: "string \<Rightarrow> string" where
  "trim_ws s = rev (dropWhile is_ws (rev (dropWhile is_ws s)))"

text \<open>The value of a digit in a radix up to 16; 16 for a character that is no digit.\<close>

definition digit_of :: "char \<Rightarrow> nat" where
  "digit_of c =
     (if CHR ''0'' \<le> c \<and> c \<le> CHR ''9'' then of_char c - 48
      else if CHR ''a'' \<le> c \<and> c \<le> CHR ''f'' then of_char c - 87
      else if CHR ''A'' \<le> c \<and> c \<le> CHR ''F'' then of_char c - 55
      else 16)"

definition is_dec :: "char \<Rightarrow> bool" where
  "is_dec c = (digit_of c < 10)"

definition all_digits :: "nat \<Rightarrow> string \<Rightarrow> bool" where
  "all_digits b s = (s \<noteq> [] \<and> list_all (\<lambda>c. digit_of c < b) s)"

definition radix_val :: "nat \<Rightarrow> string \<Rightarrow> nat" where
  "radix_val b s = foldl (\<lambda>a c. b * a + digit_of c) 0 s"

text \<open>
  The value of a string as a number. \<open>MV v\<close> carries the mathematical value of the
  literal, before it is rounded to a double.
\<close>

datatype number = NaN | PosInfinity | NegInfinity | MV rat

fun negate :: "number \<Rightarrow> number" where
  "negate NaN = NaN"
| "negate PosInfinity = NegInfinity"
| "negate NegInfinity = PosInfinity"
| "negate (MV v) = MV (- v)"

definition scale10 :: "nat \<Rightarrow> int \<Rightarrow> rat" where
  "scale10 m k = (if 0 \<le> k then of_nat m * 10 ^ nat k else of_nat m / 10 ^ nat (- k))"

text \<open>The optional exponent part that ends a decimal literal: its value, or \<open>None\<close>.\<close>

definition exponent_part :: "string \<Rightarrow> int option" where
  "exponent_part s =
     (case s of
        [] \<Rightarrow> Some 0
      | c # r \<Rightarrow>
          if c = CHR ''e'' \<or> c = CHR ''E'' then
            (case r of
               [] \<Rightarrow> None
             | d # ds \<Rightarrow>
                 if d = CHR ''+'' then
                   (if all_digits 10 ds then Some (int (radix_val 10 ds)) else None)
                 else if d = CHR ''-'' then
                   (if all_digits 10 ds then Some (- int (radix_val 10 ds)) else None)
                 else if all_digits 10 r then Some (int (radix_val 10 r))
                 else None)
          else None)"

definition unsigned_decimal :: "string \<Rightarrow> number" where
  "unsigned_decimal s =
     (if s = ''Infinity'' then PosInfinity
      else
        let ip = takeWhile is_dec s;
            r = dropWhile is_dec s;
            fp = (case r of [] \<Rightarrow> [] | c # t \<Rightarrow> if c = CHR ''.'' then takeWhile is_dec t else []);
            r' = (case r of [] \<Rightarrow> [] | c # t \<Rightarrow> if c = CHR ''.'' then dropWhile is_dec t else r)
        in if ip = [] \<and> fp = [] then NaN
           else
             (case exponent_part r' of
                None \<Rightarrow> NaN
              | Some e \<Rightarrow> MV (scale10 (radix_val 10 (ip @ fp)) (e - int (length fp)))))"

definition decimal_literal :: "string \<Rightarrow> number" where
  "decimal_literal s =
     (case s of
        [] \<Rightarrow> NaN
      | c # r \<Rightarrow>
          if c = CHR ''+'' then unsigned_decimal r
          else if c = CHR ''-'' then negate (unsigned_decimal r)
          else unsigned_decimal s)"

definition non_decimal_literal :: "string \<Rightarrow> nat option" where
  "non_decimal_literal s =
     (case s of
        z # x # ds \<Rightarrow>
          if z \<noteq> CHR ''0'' then None
          else if (x = CHR ''x'' \<or> x = CHR ''X'') \<and> all_digits 16 ds then Some (radix_val 16 ds)
          else if (x = CHR ''o'' \<or> x = CHR ''O'') \<and> all_digits 8 ds then Some (radix_val 8 ds)
          else if (x = CHR ''b'' \<or> x = CHR ''B'') \<and> all_digits 2 ds then Some (radix_val 2 ds)
          else None
      | _ \<Rightarrow> None)"

definition StringToNumber :: "string \<Rightarrow> number" where
  "StringToNumber s =
     (let t = trim_ws s
      in if t = [] then MV 0
         else
           (case non_decimal_literal t of
              Some n \<Rightarrow> MV (of_nat n)
            | None \<Rightarrow> decimal_literal t))"

text \<open>
  \<^verbatim>\<open>x < 10\<close> for the number \<open>x\<close> of a string. The mathematical value is rounded to the
  nearest double before the comparison; 10 is a double, the doubles around it are
  \<open>1 / 2 ^ 49\<close> apart, and a value half way between two doubles goes to the one with the
  even significand, which is 10: so the rounded value is below 10 exactly when the
  mathematical value is below \<open>10 - 1 / 2 ^ 50\<close>. (For a literal of more than 20
  significant digits ECMAScript also allows the rounding of the literal cut after its 20th
  digit; the model takes the correct rounding, as the engines do.) NaN is below nothing.
\<close>

fun less_than_ten :: "number \<Rightarrow> bool" where
  "less_than_ten NaN = False"
| "less_than_ten PosInfinity = False"
| "less_than_ten NegInfinity = True"
| "less_than_ten (MV v) = (v < 10 - 1 / 2 ^ 50)"

section \<open>Dates\<close>

text \<open>
  An XML document as jQuery sees it: elements with their children in document order, and
  text. (Attributes and comments play no part in the selectors and the text the module
  reads.)
\<close>

datatype xml = Element string "xml list" | Text string

fun descendants :: "xml \<Rightarrow> xml list" where
  "descendants (Element n cs) = concat (map (\<lambda>c. c # descendants c) cs)"
| "descendants (Text s) = []"

fun textContent :: "xml \<Rightarrow> string" where
  "textContent (Element n cs) = concat (map textContent cs)"
| "textContent (Text s) = s"

fun is_element :: "string \<Rightarrow> xml \<Rightarrow> bool" where
  "is_element name (Element n cs) = (n = name)"
| "is_element name (Text s) = False"

text \<open>
  A jQuery object is the list of its nodes. Those the module calls \<^verbatim>\<open>.find\<close> on hold one
  node (\<^verbatim>\<open>$(data)\<close>, \<^verbatim>\<open>$(this)\<close>) or at most one (\<^verbatim>\<open>$(list[0])\<close>, which is
  \<^verbatim>\<open>$(undefined)\<close>, the empty object, when the list is empty). \<^verbatim>\<open>.find(name)\<close> gives the
  descendant elements of that name in document order, \<^verbatim>\<open>.text()\<close> the concatenated text
  of the nodes of an object, and \<^verbatim>\<open>$(list[0])\<close> the object of the first node of a list.
  (On an object of several nodes \<^verbatim>\<open>.find\<close> would also drop the elements found twice;
  with one node none is.)
\<close>

definition jq_find :: "string \<Rightarrow> xml list \<Rightarrow> xml list" where
  "jq_find name xs = concat (map (\<lambda>x. filter (is_element name) (descendants x)) xs)"

definition jq_text :: "xml list \<Rightarrow> string" where
  "jq_text xs = concat (map textContent xs)"

fun jq_first :: "xml list \<Rightarrow> xml list" where
  "jq_first [] = []"
| "jq_first (x # xs) = [x]"

text \<open>\<^verbatim>\<open>makeDateFromXML(xmlDate)\<close>: the day and the month get a \<^verbatim>\<open>'0'\<close> in front when they
  compare below 10; the year is taken as it is.\<close>

definition makeDateFromXML :: "xml list \<Rightarrow> string" where
  "makeDateFromXML xmlDate =
     (let dd = jq_text (jq_find ''day'' xmlDate);
          dd = (if less_than_ten (StringToNumber dd) then ''0'' @ dd else dd);
          mm = jq_text (jq_find ''month'' xmlDate);
          mm = (if less_than_ten (StringToNumber mm) then ''0'' @ mm else mm);
          yyyy = jq_text (jq_find ''year'' xmlDate)
      in yyyy @ ''-'' @ mm @ ''-'' @ dd)"

text \<open>
  \<^verbatim>\<open>getDateFromForm\<close> reads three form controls with \<^verbatim>\<open>.val()\<close> and concatenates the
  values; the model takes the three values read.
\<close>

definition getDateFromForm :: "jsval \<Rightarrow> jsval \<Rightarrow> jsval \<Rightarrow> string" where
  "getDateFromForm dd mm yyyy = ToString yyyy @ ''-'' @ ToString mm @ ''-'' @ ToString dd"

text \<open>
  \<^verbatim>\<open>getTodaysDate()\<close> reads the system clock (\<^verbatim>\<open>new Date()\<close>); the model takes what the
  three getters of that \<^verbatim>\<open>Date\<close> return.
\<close>

record clock =
  getDate :: int
  getMonth :: int
  getFullYear :: int

definition getTodaysDate :: "clock \<Rightarrow> string" where
  "getTodaysDate today =
     (let dd = getDate today;
          mm = getMonth today + 1;
          yyyy = getFullYear today;
          dd = (if dd < 10 then ''0'' @ NumberToString dd else NumberToString dd);
          mm = (if mm < 10 then ''0'' @ NumberToString mm else NumberToString mm)
      in NumberToString yyyy @ ''-'' @ mm @ ''-'' @ dd)"

section \<open>Loading rooms and bookings\<close>

text \<open>
  A room as \<^verbatim>\<open>parseRoomXML\<close> builds it: its fields \<^verbatim>\<open>number\<close>, \<^verbatim>\<open>type\<close> and
  \<^verbatim>\<open>price\<close>, three strings.
\<close>

record room =
  room_number :: string
  room_type :: string
  room_price :: string

text \<open>
  \<^verbatim>\<open>parseBookingXML(data)\<close> and \<^verbatim>\<open>parseRoomXML(data)\<close>: \<^verbatim>\<open>.each\<close> runs over the elements
  found in document order and pushes one record per element.
\<close>

definition parseBookingXML :: "xml \<Rightarrow> booking list" where
  "parseBookingXML data =
     map (\<lambda>this.
            \<lparr>number = jq_text (jq_first (jq_find ''number'' [this])),
             checkin = makeDateFromXML (jq_first (jq_find ''checkin'' [this])),
             checkout = makeDateFromXML (jq_first (jq_find ''checkout'' [this]))\<rparr>)
         (jq_find ''booking'' [data])"

definition parseRoomXML :: "xml \<Rightarrow> room list" where
  "parseRoomXML data =
     map (\<lambda>this.
            \<lparr>room_number = jq_text (jq_first (jq_find ''number'' [this])),
             room_type = jq_text (jq_first (jq_find ''roomType'' [this])),
             room_price = jq_text (jq_first (jq_find ''pricePerNight'' [this]))\<rparr>)
         (jq_find ''hotelRoom'' [data])"

section \<open>The page and the two forms\<close>

text \<open>
  The part of the page the module reads and writes: the six selectors of the find-room
  form, the three error texts, the two hidden date fields, the options of the room
  selector (value and text) and its selected value, the guest name, and what is shown or
  disabled.
\<close>

record page =
  checkinday :: jsval
  checkinmonth :: jsval
  checkinyear :: jsval
  checkoutday :: jsval
  checkoutmonth :: jsval
  checkoutyear :: jsval
  checkinError :: string
  checkoutError :: string
  nameError :: string
  checkinDate :: jsval
  checkoutDate :: jsval
  findRoomFormDisabled :: bool
  searchingForRooms :: bool
  roomSelectionOptions :: "(string \<times> string) list"
  roomSelection :: jsval
  bookRoomForm :: bool
  bookingName :: jsval

text \<open>
  \<^verbatim>\<open>setupBookRoom(checkin, checkout)\<close> requests the rooms, then (in the first request's
  \<^verbatim>\<open>done\<close>) the bookings, and in the second request's \<^verbatim>\<open>done\<close> appends an option for every
  available room and shows the booking form. A request that fails never calls \<^verbatim>\<open>done\<close>.
  The model takes the two responses (\<open>None\<close> for a request that fails) and gives the page
  after the chain has run. The body of \<^verbatim>\<open>rooms.forEach\<close> is \<open>appendRoom\<close>, and the
  second \<^verbatim>\<open>done\<close> callback, run on the two parsed lists, is \<open>showRooms\<close>.
\<close>

definition appendRoom :: "string \<Rightarrow> string \<Rightarrow> booking list \<Rightarrow> page \<Rightarrow> room \<Rightarrow> page" where
  "appendRoom ci co bookings p r =
     (if checkAvailable (room_number r) ci co bookings then
        p\<lparr>roomSelectionOptions :=
             roomSelectionOptions p @ [(room_number r, room_number r @ '': '' @ room_price r)]\<rparr>
      else p)"

definition showRooms :: "string \<Rightarrow> string \<Rightarrow> room list \<Rightarrow> booking list \<Rightarrow> page \<Rightarrow> page" where
  "showRooms ci co rooms bookings p =
     (foldl (appendRoom ci co bookings) p rooms)\<lparr>bookRoomForm := True\<rparr>"

definition setupBookRoom ::
  "string \<Rightarrow> string \<Rightarrow> xml option \<Rightarrow> xml option \<Rightarrow> page \<Rightarrow> page" where
  "setupBookRoom ci co hotelRooms roomBookings p =
     (case hotelRooms of
        None \<Rightarrow> p
      | Some data \<Rightarrow>
          let rooms = parseRoomXML data
          in (case roomBookings of
                None \<Rightarrow> p
              | Some data' \<Rightarrow>
                  let bookings = parseBookingXML data'
                  in showRooms ci co rooms bookings p))"

text \<open>
  \<^verbatim>\<open>submitFindRoom()\<close>. The result is the value returned, the page, and the call of
  \<^verbatim>\<open>setupBookRoom\<close> it makes, if any, with its two arguments (the requests of that call
  complete after the handler has returned).
\<close>

definition submitFindRoom :: "clock \<Rightarrow> page \<Rightarrow> bool \<times> page \<times> (string \<times> string) option" where
  "submitFindRoom today p =
     (let isValid = True;
          ci = getDateFromForm (checkinday p) (checkinmonth p) (checkinyear p);
          (p, isValid) =
            (if \<not> truthy ci then
               (p\<lparr>checkinError := ''You must enter a check in date.''\<rparr>, False)
             else if ci < getTodaysDate today then
               (p\<lparr>checkinError := ''You can't book in the past.''\<rparr>, False)
             else (p\<lparr>checkinError := []\<rparr>, isValid));
          co = getDateFromForm (checkoutday p) (checkoutmonth p) (checkoutyear p);
          (p, isValid) =
            (if \<not> truthy co then
               (p\<lparr>checkoutError := ''You must enter a check out date.''\<rparr>, False)
             else if co < ci then
               (p\<lparr>checkoutError := ''You can't check out before you check in.''\<rparr>, False)
             else if co = ci then
               (p\<lparr>checkoutError := ''You must stay at least one night.''\<rparr>, False)
             else (p\<lparr>checkoutError := []\<rparr>, isValid))
      in if isValid then
           (False,
            p\<lparr>checkinDate := Str ci, checkoutDate := Str co,
              findRoomFormDisabled := True, searchingForRooms := True\<rparr>,
            Some (ci, co))
         else (False, p, None))"

text \<open>
  A pending booking as \<^verbatim>\<open>submitBookRoom\<close> builds it: three values read from the page with
  \<^verbatim>\<open>.val()\<close> and the trimmed name.
\<close>

record newBooking =
  nb_number :: jsval
  nb_checkin :: jsval
  nb_checkout :: jsval
  nb_name :: string

text \<open>
  \<^verbatim>\<open>$.trim(text)\<close> of jQuery: the empty string for \<^verbatim>\<open>null\<close> and \<^verbatim>\<open>undefined\<close>, else the
  string without the white space at its two ends.
\<close>

fun trim :: "jsval \<Rightarrow> string" where
  "trim Undefined = []"
| "trim Null = []"
| "trim (Str s) = trim_ws s"

text \<open>
  \<^verbatim>\<open>submitBookRoom()\<close>. It calls \<^verbatim>\<open>loadLocalBookings()\<close> and
  \<^verbatim>\<open>saveLocalBookings(localBookings)\<close>, which bookRooms.js does not define: the model
  takes the two as parameters \<open>load\<close> and \<open>save\<close>, over any type of store (\<open>load\<close> gives
  the list read and the store after the read, \<open>save\<close> the store after the write).
  The last statement before \<^verbatim>\<open>return true\<close> hides the elements selected by
  \<^verbatim>\<open>"bookRoomForm"\<close>, a selector for elements of that tag name: the page has none, and
  the form \<^verbatim>\<open>#bookRoomForm\<close> stays as it is.
\<close>

definition submitBookRoom ::
  "('s \<Rightarrow> newBooking list \<times> 's) \<Rightarrow> (newBooking list \<Rightarrow> 's \<Rightarrow> 's) \<Rightarrow> page \<Rightarrow> 's
     \<Rightarrow> bool \<times> page \<times> 's" where
  "submitBookRoom load save p st =
     (let newBooking =
            \<lparr>nb_number = roomSelection p, nb_checkin = checkinDate p,
             nb_checkout = checkoutDate p, nb_name = trim (bookingName p)\<rparr>
      in if \<not> truthy (nb_name newBooking) then
           (False, p\<lparr>nameError := ''You must enter a booking name''\<rparr>, st)
         else
           (let p = p\<lparr>nameError := []\<rparr>;
                (localBookings, st) = load st;
                localBookings = localBookings @ [newBooking];
                st = save localBookings st
            in (True, p, st)))"

text \<open>
  The local booking store, with the accesses made to it in the order they were made.
\<close>

datatype access = Load | Save

record store =
  stored :: "newBooking list"
  accesses :: "access list"

text \<open>
  Modelled from the spec: \<^verbatim>\<open>loadLocalBookings\<close> and \<^verbatim>\<open>saveLocalBookings\<close>, which
  \<^verbatim>\<open>submitBookRoom\<close> calls and bookRooms.js does not define. The spec's Local Booking Store
  has \<^verbatim>\<open>load() -> list<PendingBooking>\<close> and \<^verbatim>\<open>save(list<PendingBooking>)\<close> over a single
  persisted record holding the list, read and written wholesale.
\<close>

definition loadLocalBookings :: "store \<Rightarrow> newBooking list \<times> store" where
  "loadLocalBookings st = (stored st, st\<lparr>accesses := accesses st @ [Load]\<rparr>)"

definition saveLocalBookings :: "newBooking list \<Rightarrow> store \<Rightarrow> store" where
  "saveLocalBookings bs st = st\<lparr>stored := bs, accesses := accesses st @ [Save]\<rparr>"

text \<open>
  A jQuery event handler that returns \<^verbatim>\<open>false\<close> prevents the default action of the event
  (for a form's submit event, sending the form and loading the response); any other
  return value leaves the default action to happen.
\<close>

definition suppressesDefault :: "bool \<Rightarrow> bool" where
  "suppressesDefault returned = (returned = False)"

section \<open>The specification's date format\<close>

text \<open>
  The Date Formatter as the specification words it, for a day, a month and a year given as
  natural numbers: the day and the month are zero-padded to two digits and the three are
  concatenated as yyyy-mm-dd. It is compared with \<open>makeDateFromXML\<close> and
  \<open>getTodaysDate\<close> below.
\<close>

definition two_digits :: "nat \<Rightarrow> string" where
  "two_digits n = [digit_char (n div 10), digit_char (n mod 10)]"

definition spec_formatDate :: "nat \<Rightarrow> nat \<Rightarrow> nat \<Rightarrow> string" where
  "spec_formatDate day month year =
     string_of_nat year @ ''-'' @ two_digits month @ ''-'' @ two_digits day"

text \<open>
  The canonical form yyyy-mm-dd of the specification: four digits, a hyphen, two digits, a
  hyphen, two digits. \<open>date_of\<close> reads the year, the month and the day of such a string,
  and \<open>earlier\<close> is the chronological order of two dates read that way.
\<close>

definition canonical :: "string \<Rightarrow> bool" where
  "canonical s =
     (length s = 10 \<and> list_all is_dec (take 4 s) \<and> s ! 4 = CHR ''-''
      \<and> list_all is_dec (take 2 (drop 5 s)) \<and> s ! 7 = CHR ''-''
      \<and> list_all is_dec (drop 8 s))"

definition date_of :: "string \<Rightarrow> nat \<times> nat \<times> nat" where
  "date_of s =
     (radix_val 10 (take 4 s), radix_val 10 (take 2 (drop 5 s)), radix_val 10 (drop 8 s))"

fun earlier_date :: "nat \<times> nat \<times> nat \<Rightarrow> nat \<times> nat \<times> nat \<Rightarrow> bool" where
  "earlier_date (y, m, d) (y', m', d') = (y < y' \<or> y = y' \<and> (m < m' \<or> m = m' \<and> d < d'))"

definition earlier :: "string \<Rightarrow> string \<Rightarrow> bool" where
  "earlier s t = earlier_date (date_of s) (date_of t)"

text \<open>
  The day of the month and the month a JavaScript \<^verbatim>\<open>Date\<close> gives are within 1 to 31 and
  0 to 11 (January is 0); \<open>clock_date\<close> is the calendar date a clock shows, as year,
  month and day.
\<close>

definition js_date :: "clock \<Rightarrow> bool" where
  "js_date today =
     (1 \<le> getDate today \<and> getDate today \<le> 31 \<and> 0 \<le> getMonth today \<and> getMonth today \<le> 11)"

definition clock_date :: "clock \<Rightarrow> nat \<times> nat \<times> nat" where
  "clock_date today = (nat (getFullYear today), nat (getMonth today + 1), nat (getDate today))"

section \<open>Example data\<close>

text \<open>A page with every selector and field empty, for the examples below.\<close>

definition blank_page :: page where
  "blank_page =
     \<lparr>checkinday = Str [], checkinmonth = Str [], checkinyear = Str [],
      checkoutday = Str [], checkoutmonth = Str [], checkoutyear = Str [],
      checkinError = [], checkoutError = [], nameError = [],
      checkinDate = Str [], checkoutDate = Str [],
      findRoomFormDisabled = False, searchingForRooms = False,
      roomSelectionOptions = [], roomSelection = Null, bookRoomForm = False,
      bookingName = Str []\<rparr>"

section \<open>Auxiliary facts: numerals and their strings\<close>

declare string_of_nat.simps [simp del]

lemma digit_cases: "d < 10 \<Longrightarrow> d \<in> {0, 1, 2, 3, 4, 5, 6, 7, 8, 9::nat}"
  by auto

lemma digit_of_digit_char: "d < 10 \<Longrightarrow> digit_of (digit_char d) = d"
  using digit_cases [of d] by (auto simp: digit_of_def digit_char_def less_eq_char_def)

lemma is_dec_digit_char: "d < 10 \<Longrightarrow> is_dec (digit_char d)"
  by (simp add: is_dec_def digit_of_digit_char)

lemma is_dec_not_special:
  "is_dec c \<Longrightarrow> \<not> is_ws c \<and> c \<noteq> CHR ''+'' \<and> c \<noteq> CHR ''-'' \<and> c \<noteq> CHR ''x'' \<and> c \<noteq> CHR ''X''
     \<and> c \<noteq> CHR ''o'' \<and> c \<noteq> CHR ''O'' \<and> c \<noteq> CHR ''b'' \<and> c \<noteq> CHR ''B'' \<and> c \<noteq> CHR ''I''"
  by (auto simp: is_dec_def digit_of_def is_ws_def)

lemma digit_char_simps:
  "digit_char 0 = CHR ''0''" "digit_char 1 = CHR ''1''" "digit_char 2 = CHR ''2''"
  "digit_char 3 = CHR ''3''" "digit_char 4 = CHR ''4''" "digit_char 5 = CHR ''5''"
  "digit_char 6 = CHR ''6''" "digit_char 7 = CHR ''7''" "digit_char 8 = CHR ''8''"
  "digit_char 9 = CHR ''9''"
  by (simp_all add: digit_char_def char_of_eq_iff)

lemma string_of_nat_nonempty: "string_of_nat n \<noteq> []"
  by (subst string_of_nat.simps) simp

lemma string_of_nat_digits: "list_all is_dec (string_of_nat n)"
proof (induction n rule: string_of_nat.induct)
  case (1 n)
  show ?case
    by (subst string_of_nat.simps) (use 1 in \<open>auto simp: is_dec_digit_char\<close>)
qed

lemma string_of_nat_small: "n < 10 \<Longrightarrow> string_of_nat n = [digit_char n]"
  by (subst string_of_nat.simps) simp

lemma radix_val_snoc: "radix_val b (s @ [c]) = b * radix_val b s + digit_of c"
  by (simp add: radix_val_def)

lemma radix_val_string_of_nat: "radix_val 10 (string_of_nat n) = n"
proof (induction n rule: string_of_nat.induct)
  case (1 n)
  show ?case
  proof (cases "n < 10")
    case True
    then show ?thesis
      by (subst string_of_nat.simps) (simp add: radix_val_def digit_of_digit_char)
  next
    case False
    with 1 show ?thesis
      by (subst string_of_nat.simps) (simp add: radix_val_snoc digit_of_digit_char)
  qed
qed

lemma trim_ws_id: "s \<noteq> [] \<Longrightarrow> \<not> is_ws (hd s) \<Longrightarrow> \<not> is_ws (last s) \<Longrightarrow> trim_ws s = s"
proof -
  assume a: "s \<noteq> []" "\<not> is_ws (hd s)" "\<not> is_ws (last s)"
  have 1: "dropWhile is_ws s = s" using a by (simp add: dropWhile_eq_self_iff)
  have 2: "dropWhile is_ws (rev s) = rev s" using a by (simp add: dropWhile_eq_self_iff hd_rev)
  show ?thesis by (simp add: trim_ws_def 1 2)
qed

lemma trim_ws_empty_iff: "trim_ws s = [] \<longleftrightarrow> list_all is_ws s"
proof
  assume "trim_ws s = []"
  then have a: "\<forall>x \<in> set (dropWhile is_ws s). is_ws x"
    by (simp add: trim_ws_def)
  have "dropWhile is_ws s = []"
  proof (rule ccontr)
    assume n: "dropWhile is_ws s \<noteq> []"
    then have "\<not> is_ws (hd (dropWhile is_ws s))" by (rule hd_dropWhile)
    moreover have "hd (dropWhile is_ws s) \<in> set (dropWhile is_ws s)" using n by simp
    ultimately show False using a by blast
  qed
  then show "list_all is_ws s" by (simp add: list_all_iff)
next
  assume "list_all is_ws s"
  then have "dropWhile is_ws s = []" by (simp add: list_all_iff)
  then show "trim_ws s = []" by (simp only: trim_ws_def rev.simps dropWhile.simps)
qed

lemma StringToNumber_digits:
  assumes "s \<noteq> []" and "list_all is_dec s"
  shows "StringToNumber s = MV (of_nat (radix_val 10 s))"
proof -
  from assms obtain c r where s: "s = c # r" by (cases s) auto
  have c: "is_dec c" using assms s by simp
  have l: "is_dec (last s)" using assms by (simp add: list_all_iff)
  have t: "trim_ws s = s"
    using assms c l s is_dec_not_special by (intro trim_ws_id) auto
  have nd: "non_decimal_literal s = None"
  proof (cases r)
    case Nil
    then show ?thesis by (simp add: s non_decimal_literal_def)
  next
    case (Cons x ds)
    then have "is_dec x" using assms s by simp
    then show ?thesis using Cons is_dec_not_special [of x]
      by (simp add: s non_decimal_literal_def)
  qed
  have tw: "takeWhile is_dec s = s" "dropWhile is_dec s = []"
    using assms by (simp_all add: list_all_iff)
  have inf: "s \<noteq> ''Infinity''" using c is_dec_not_special [of c] s by auto
  have ud: "unsigned_decimal s = MV (of_nat (radix_val 10 s))"
    using assms(1) inf
    by (simp add: unsigned_decimal_def tw exponent_part_def scale10_def Let_def)
  have "decimal_literal s = unsigned_decimal s"
    using c is_dec_not_special [of c] by (simp add: decimal_literal_def s)
  then show ?thesis
    using assms(1) by (simp add: StringToNumber_def t nd ud)
qed

lemma less_than_ten_string_of_nat:
  "less_than_ten (StringToNumber (string_of_nat n)) = (n < 10)"
proof -
  have "StringToNumber (string_of_nat n) = MV (of_nat n)"
    by (simp add: StringToNumber_digits string_of_nat_nonempty string_of_nat_digits
        radix_val_string_of_nat)
  moreover have "((of_nat n :: rat) < 10 - 1 / 2 ^ 50) = (n < 10)"
  proof (cases "n < 10")
    case True
    then have "n \<le> 9" by simp
    then have "(of_nat n :: rat) \<le> of_nat 9" by (simp only: of_nat_le_iff)
    moreover have "(of_nat 9 :: rat) < 10 - 1 / 2 ^ 50" by simp
    ultimately show ?thesis using True by simp
  next
    case False
    then have "10 \<le> n" by simp
    then have "(of_nat 10 :: rat) \<le> of_nat n" by (simp only: of_nat_le_iff)
    moreover have "(10 :: rat) - 1 / 2 ^ 50 < of_nat 10" by simp
    ultimately show ?thesis using False by simp
  qed
  ultimately show ?thesis by simp
qed

lemma two_digits_small: "n < 10 \<Longrightarrow> ''0'' @ string_of_nat n = two_digits n"
  by (simp add: string_of_nat_small two_digits_def digit_char_simps)

lemma two_digits_large: "10 \<le> n \<Longrightarrow> n < 100 \<Longrightarrow> string_of_nat n = two_digits n"
  by (subst string_of_nat.simps) (simp add: string_of_nat_small two_digits_def)

lemma length_string_of_nat_step:
  "10 \<le> n \<Longrightarrow> length (string_of_nat n) = Suc (length (string_of_nat (n div 10)))"
  by (subst string_of_nat.simps) simp

lemma length_string_of_nat_year:
  assumes "1000 \<le> n" and "n \<le> 9999"
  shows "length (string_of_nat n) = 4"
proof -
  have 1: "100 \<le> n div 10" "n div 10 \<le> 999" using assms by linarith+
  then have 2: "10 \<le> n div 10 div 10" "n div 10 div 10 \<le> 99" by linarith+
  then have 3: "n div 10 div 10 div 10 < 10" by linarith
  have "length (string_of_nat (n div 10 div 10 div 10)) = 1"
    using 3 by (simp add: string_of_nat_small)
  then have "length (string_of_nat (n div 10 div 10)) = 2"
    using 2 by (simp add: length_string_of_nat_step)
  then have "length (string_of_nat (n div 10)) = 3"
    using 1 by (simp add: length_string_of_nat_step)
  then show ?thesis
    using assms by (simp add: length_string_of_nat_step)
qed

lemma pad_text:
  "n < 100 \<Longrightarrow>
   (if less_than_ten (StringToNumber (string_of_nat n)) then ''0'' @ string_of_nat n
    else string_of_nat n) = two_digits n"
  using two_digits_small [of n] two_digits_large [of n]
  by (simp add: less_than_ten_string_of_nat)

lemma pad_number:
  "i = int n \<Longrightarrow> n < 100 \<Longrightarrow>
   (if i < 10 then ''0'' @ NumberToString i else NumberToString i) = two_digits n"
  using two_digits_small [of n] two_digits_large [of n]
  by (simp add: NumberToString_def)

lemma makeDateFromXML_no_text:
  "jq_text (jq_find ''day'' d) = [] \<Longrightarrow> jq_text (jq_find ''month'' d) = [] \<Longrightarrow>
   jq_text (jq_find ''year'' d) = [] \<Longrightarrow> makeDateFromXML d = ''-0-0''"
  by (simp add: makeDateFromXML_def Let_def StringToNumber_def trim_ws_def)

lemma makeDateFromXML_Nil: "makeDateFromXML [] = ''-0-0''"
  by (rule makeDateFromXML_no_text) (simp_all add: jq_find_def jq_text_def)

section \<open>Auxiliary facts: the order of canonical dates\<close>

text \<open>
  On strings in the canonical form the order of strings is the chronological order of the
  dates: digit strings of one length are ordered as their values are.
\<close>

lemma is_dec_code: "is_dec c \<Longrightarrow> 48 \<le> (of_char c :: nat) \<and> (of_char c :: nat) \<le> 57 \<and> digit_of c = of_char c - 48"
  by (auto simp: is_dec_def digit_of_def less_eq_char_def split: if_splits)

lemma is_dec_less: "is_dec a \<Longrightarrow> is_dec b \<Longrightarrow> (a < b) = (digit_of a < digit_of b)"
  using is_dec_code [of a] is_dec_code [of b] by (auto simp: less_char_def)

lemma is_dec_eq: "is_dec a \<Longrightarrow> is_dec b \<Longrightarrow> (a = b) = (digit_of a = digit_of b)"
proof -
  assume a: "is_dec a" "is_dec b"
  show ?thesis
  proof
    assume "a = b"
    then show "digit_of a = digit_of b" by simp
  next
    assume "digit_of a = digit_of b"
    then have "(of_char a :: nat) = of_char b"
      using is_dec_code [OF a(1)] is_dec_code [OF a(2)] by linarith
    then show "a = b" by (simp only: of_char_eq_iff)
  qed
qed

lemma foldl_radix: "foldl (\<lambda>a c. b * a + digit_of c) k s = k * b ^ length s + radix_val b s"
proof (induction s arbitrary: k rule: rev_induct)
  case Nil
  show ?case by (simp add: radix_val_def)
next
  case (snoc c s)
  show ?case using snoc [of k] by (simp add: radix_val_snoc algebra_simps)
qed

lemma radix_val_Cons: "radix_val b (c # s) = digit_of c * b ^ length s + radix_val b s"
  using foldl_radix [of b "digit_of c" s] by (simp add: radix_val_def)

lemma radix_val_bound: "list_all is_dec s \<Longrightarrow> radix_val 10 s < 10 ^ length s"
proof (induction s rule: rev_induct)
  case Nil
  show ?case by (simp add: radix_val_def)
next
  case (snoc c s)
  then have "radix_val 10 s < 10 ^ length s" "digit_of c < 10" by (simp_all add: is_dec_def)
  then have "10 * radix_val 10 s + digit_of c < 10 * 10 ^ length s" by linarith
  then show ?case by (simp add: radix_val_snoc)
qed

lemma digits_order:
  "length xs = length ys \<Longrightarrow> list_all is_dec xs \<Longrightarrow> list_all is_dec ys \<Longrightarrow>
   (xs < ys) = (radix_val 10 xs < radix_val 10 ys) \<and> (xs = ys) = (radix_val 10 xs = radix_val 10 ys)"
proof (induction xs ys rule: list_induct2)
  case Nil
  show ?case by simp
next
  case (Cons x xs y ys)
  let ?n = "length ys"
  have d: "is_dec x" "is_dec y" and l: "list_all is_dec xs" "list_all is_dec ys"
    using Cons.prems by simp_all
  have bndx: "radix_val 10 xs < 10 ^ ?n" using radix_val_bound [OF l(1)] Cons.hyps by simp
  have bndy: "radix_val 10 ys < 10 ^ ?n" using radix_val_bound [OF l(2)] by simp
  have ih: "(xs < ys) = (radix_val 10 xs < radix_val 10 ys)"
    "(xs = ys) = (radix_val 10 xs = radix_val 10 ys)"
    using Cons.IH l by simp_all
  have lt: "digit_of x < digit_of y \<Longrightarrow>
      digit_of x * 10 ^ ?n + radix_val 10 xs < digit_of y * 10 ^ ?n + radix_val 10 ys"
  proof -
    assume "digit_of x < digit_of y"
    then have "Suc (digit_of x) \<le> digit_of y" by simp
    then have "Suc (digit_of x) * 10 ^ ?n \<le> digit_of y * 10 ^ ?n" by (rule mult_le_mono1)
    then show ?thesis using bndx by simp
  qed
  have gt: "digit_of y < digit_of x \<Longrightarrow>
      digit_of y * 10 ^ ?n + radix_val 10 ys < digit_of x * 10 ^ ?n + radix_val 10 xs"
  proof -
    assume "digit_of y < digit_of x"
    then have "Suc (digit_of y) \<le> digit_of x" by simp
    then have "Suc (digit_of y) * 10 ^ ?n \<le> digit_of x * 10 ^ ?n" by (rule mult_le_mono1)
    then show ?thesis using bndy by simp
  qed
  consider "digit_of x < digit_of y" | "digit_of x = digit_of y" | "digit_of y < digit_of x"
    by linarith
  then show ?case
  proof cases
    case 1
    then show ?thesis using lt d Cons.hyps
      by (simp add: radix_val_Cons is_dec_less is_dec_eq)
  next
    case 2
    then show ?thesis using d ih Cons.hyps
      by (simp add: radix_val_Cons is_dec_less is_dec_eq)
  next
    case 3
    then show ?thesis using gt d Cons.hyps
      by (simp add: radix_val_Cons is_dec_less is_dec_eq)
  qed
qed

lemma append_less_same_length:
  "length a = length c \<Longrightarrow> ((a @ b :: string) < c @ d) = (a < c \<or> a = c \<and> b < d)"
  by (induction a c rule: list_induct2) auto

lemma canonical_split:
  assumes "canonical s"
  shows "s = take 4 s @ CHR ''-'' # take 2 (drop 5 s) @ CHR ''-'' # drop 8 s"
proof -
  have l: "length s = 10" and h: "s ! 4 = CHR ''-''" "s ! 7 = CHR ''-''"
    using assms by (simp_all add: canonical_def)
  have 1: "drop 4 s = s ! 4 # drop 5 s" using l by (simp add: Cons_nth_drop_Suc [symmetric])
  have 2: "drop 7 s = s ! 7 # drop 8 s" using l by (simp add: Cons_nth_drop_Suc [symmetric])
  have 3: "drop 5 s = take 2 (drop 5 s) @ drop 7 s"
    using append_take_drop_id [of 2 "drop 5 s"] by simp
  have "s = take 4 s @ drop 4 s" by simp
  then show ?thesis using 1 2 3 h by metis
qed

lemma canonical_order:
  assumes "canonical s" and "canonical t"
  shows "(s < t) = earlier s t" and "(s = t) = (date_of s = date_of t)"
proof -
  define Y M D where "Y = take 4 s" and "M = take 2 (drop 5 s)" and "D = drop 8 s"
  define Y' M' D' where "Y' = take 4 t" and "M' = take 2 (drop 5 t)" and "D' = drop 8 t"
  have s: "s = Y @ CHR ''-'' # M @ CHR ''-'' # D"
    using canonical_split [OF assms(1)] by (simp add: Y_def M_def D_def)
  have t: "t = Y' @ CHR ''-'' # M' @ CHR ''-'' # D'"
    using canonical_split [OF assms(2)] by (simp add: Y'_def M'_def D'_def)
  have len: "length Y = length Y'" "length M = length M'" "length D = length D'"
    using assms by (simp_all add: canonical_def Y_def Y'_def M_def M'_def D_def D'_def)
  have dig: "list_all is_dec Y" "list_all is_dec M" "list_all is_dec D"
    "list_all is_dec Y'" "list_all is_dec M'" "list_all is_dec D'"
    using assms by (simp_all add: canonical_def Y_def Y'_def M_def M'_def D_def D'_def)
  note oy = digits_order [OF len(1) dig(1) dig(4)]
  note om = digits_order [OF len(2) dig(2) dig(5)]
  note od = digits_order [OF len(3) dig(3) dig(6)]
  have ds: "date_of s = (radix_val 10 Y, radix_val 10 M, radix_val 10 D)"
    by (simp add: date_of_def Y_def M_def D_def)
  have dt: "date_of t = (radix_val 10 Y', radix_val 10 M', radix_val 10 D')"
    by (simp add: date_of_def Y'_def M'_def D'_def)
  have "(s < t) = (Y < Y' \<or> Y = Y' \<and> (M < M' \<or> M = M' \<and> D < D'))"
    by (subst s, subst t) (simp add: append_less_same_length len)
  then show "(s < t) = earlier s t"
    using oy om od by (simp add: earlier_def ds dt)
  have "(s = t) = (Y = Y' \<and> M = M' \<and> D = D')"
    by (subst s, subst t) (simp add: len)
  then show "(s = t) = (date_of s = date_of t)"
    using oy om od by (simp add: ds dt)
qed

text \<open>
  For a clock in a year of four digits, \<open>getTodaysDate\<close> gives a string in the
  canonical form, which denotes the date the clock shows.
\<close>

lemma two_digits_facts:
  "n < 100 \<Longrightarrow> length (two_digits n) = 2 \<and> list_all is_dec (two_digits n) \<and> radix_val 10 (two_digits n) = n"
  by (simp add: two_digits_def is_dec_digit_char radix_val_def digit_of_digit_char)

lemma canonical_spec_formatDate:
  assumes "d < 100" and "m < 100" and "1000 \<le> y" and "y \<le> 9999"
  shows "canonical (spec_formatDate d m y)" and "date_of (spec_formatDate d m y) = (y, m, d)"
proof -
  define Y M D where "Y = string_of_nat y" and "M = two_digits m" and "D = two_digits d"
  have Y: "length Y = 4" "list_all is_dec Y" "radix_val 10 Y = y"
    using assms(3,4)
    by (simp_all add: Y_def length_string_of_nat_year string_of_nat_digits radix_val_string_of_nat)
  have M: "length M = 2" "list_all is_dec M" "radix_val 10 M = m"
    using two_digits_facts [OF assms(2)] by (simp_all add: M_def)
  have D: "length D = 2" "list_all is_dec D" "radix_val 10 D = d"
    using two_digits_facts [OF assms(1)] by (simp_all add: D_def)
  have s: "spec_formatDate d m y = Y @ CHR ''-'' # M @ CHR ''-'' # D"
    by (simp add: spec_formatDate_def Y_def M_def D_def)
  have parts: "take 4 (spec_formatDate d m y) = Y" "take 2 (drop 5 (spec_formatDate d m y)) = M"
    "drop 8 (spec_formatDate d m y) = D" "spec_formatDate d m y ! 4 = CHR ''-''"
    "spec_formatDate d m y ! 7 = CHR ''-''" "length (spec_formatDate d m y) = 10"
    by (simp_all add: s Y(1) M(1) D(1) nth_append)
  show "canonical (spec_formatDate d m y)"
    by (simp add: canonical_def parts Y M D)
  show "date_of (spec_formatDate d m y) = (y, m, d)"
    by (simp add: date_of_def parts Y M D)
qed

lemma getTodaysDate_spec:
  assumes "0 \<le> getDate today" and "getDate today < 100"
    and "0 \<le> getMonth today + 1" and "getMonth today + 1 < 100" and "0 \<le> getFullYear today"
  shows "getTodaysDate today =
     spec_formatDate (nat (getDate today)) (nat (getMonth today + 1)) (nat (getFullYear today))"
proof -
  have d: "(if getDate today < 10 then ''0'' @ NumberToString (getDate today)
            else NumberToString (getDate today)) = two_digits (nat (getDate today))"
    using assms(1,2) by (intro pad_number) simp_all
  have m: "(if getMonth today + 1 < 10 then ''0'' @ NumberToString (getMonth today + 1)
            else NumberToString (getMonth today + 1)) = two_digits (nat (getMonth today + 1))"
    using assms(3,4) by (intro pad_number) simp_all
  show ?thesis
    using assms(5) d m by (simp add: getTodaysDate_def Let_def spec_formatDate_def NumberToString_def)
qed

lemma getTodaysDate_canonical:
  assumes "js_date today" and "1000 \<le> getFullYear today" and "getFullYear today \<le> 9999"
  shows "canonical (getTodaysDate today)" and "date_of (getTodaysDate today) = clock_date today"
proof -
  have g: "getTodaysDate today =
     spec_formatDate (nat (getDate today)) (nat (getMonth today + 1)) (nat (getFullYear today))"
    using assms by (intro getTodaysDate_spec) (simp_all add: js_date_def)
  have r: "nat (getDate today) < 100" "nat (getMonth today + 1) < 100"
    "1000 \<le> nat (getFullYear today)" "nat (getFullYear today) \<le> 9999"
    using assms by (auto simp: js_date_def)
  show "canonical (getTodaysDate today)"
    using canonical_spec_formatDate(1) [OF r] by (simp only: g)
  show "date_of (getTodaysDate today) = clock_date today"
    using canonical_spec_formatDate(2) [OF r] by (simp only: g clock_date_def)
qed

section \<open>Auxiliary facts: the find-room form\<close>

text \<open>
  The date read from three selectors holds two hyphens at least, so it is never the empty
  string; what \<open>submitFindRoom\<close> writes and returns is then determined by two string
  comparisons.
\<close>

lemma getDateFromForm_truthy: "truthy (getDateFromForm dd mm yyyy)"
  by (simp add: truthy_def getDateFromForm_def)

lemma submitFindRoom_returned: "fst (submitFindRoom today p) = False"
  by (simp add: submitFindRoom_def Let_def getDateFromForm_truthy split: prod.splits)

lemma submitFindRoom_checkinError:
  "checkinError (fst (snd (submitFindRoom today p))) =
     (if getDateFromForm (checkinday p) (checkinmonth p) (checkinyear p) < getTodaysDate today
      then ''You can't book in the past.'' else [])"
  by (simp add: submitFindRoom_def Let_def getDateFromForm_truthy split: prod.splits)

lemma submitFindRoom_checkoutError:
  "checkoutError (fst (snd (submitFindRoom today p))) =
     (if getDateFromForm (checkoutday p) (checkoutmonth p) (checkoutyear p)
          < getDateFromForm (checkinday p) (checkinmonth p) (checkinyear p)
      then ''You can't check out before you check in.''
      else if getDateFromForm (checkoutday p) (checkoutmonth p) (checkoutyear p)
          = getDateFromForm (checkinday p) (checkinmonth p) (checkinyear p)
      then ''You must stay at least one night.'' else [])"
  by (simp add: submitFindRoom_def Let_def getDateFromForm_truthy split: prod.splits)

lemma submitFindRoom_call:
  "snd (snd (submitFindRoom today p)) =
     (let ci = getDateFromForm (checkinday p) (checkinmonth p) (checkinyear p);
          co = getDateFromForm (checkoutday p) (checkoutmonth p) (checkoutyear p)
      in if \<not> ci < getTodaysDate today \<and> ci < co then Some (ci, co) else None)"
  by (auto simp add: submitFindRoom_def Let_def getDateFromForm_truthy split: prod.splits)

lemma submitFindRoom_page:
  assumes "getDateFromForm (checkinday p) (checkinmonth p) (checkinyear p) = ci"
    and "getDateFromForm (checkoutday p) (checkoutmonth p) (checkoutyear p) = co"
  shows "fst (snd (submitFindRoom today p)) =
     (if \<not> ci < getTodaysDate today \<and> ci < co then
        p\<lparr>checkinError := [], checkoutError := [], checkinDate := Str ci,
          checkoutDate := Str co, findRoomFormDisabled := True, searchingForRooms := True\<rparr>
      else
        p\<lparr>checkinError := (if ci < getTodaysDate today then ''You can't book in the past.'' else []),
          checkoutError :=
            (if co < ci then ''You can't check out before you check in.''
             else if co = ci then ''You must stay at least one night.'' else [])\<rparr>)"
proof -
  have t: "truthy ci" "truthy co" using assms getDateFromForm_truthy by auto
  consider "co < ci" | "co = ci" | "ci < co" by (rule linorder_cases)
  then show ?thesis
  proof cases
    case 1
    then have "\<not> ci < co" by simp
    then show ?thesis using 1 t by (simp add: submitFindRoom_def Let_def assms)
  next
    case 2
    then show ?thesis using t by (simp add: submitFindRoom_def Let_def assms)
  next
    case 3
    then have "\<not> co < ci" "co \<noteq> ci" by simp_all
    then show ?thesis using 3 t by (simp add: submitFindRoom_def Let_def assms)
  qed
qed

lemma foldl_appendRoom:
  "roomSelectionOptions (foldl (appendRoom ci co bookings) p rooms) =
     roomSelectionOptions p @
       map (\<lambda>r. (room_number r, room_number r @ '': '' @ room_price r))
         (filter (\<lambda>r. checkAvailable (room_number r) ci co bookings) rooms)"
  by (induction rooms arbitrary: p) (simp_all add: appendRoom_def)

section \<open>C1: the availability check\<close>

text \<open>
  Claim C1. For every room identifier, every pair of dates and every list of bookings,
  \<^verbatim>\<open>checkAvailable\<close> returns true if and only if no booking of the list has that room
  identifier and passes the overlap test (its check-in is before the requested check-out
  and its check-out is after the requested check-in). In particular a booking whose
  check-out equals the requested check-in (back to back) never makes the room unavailable:
  it can be dropped from the list without changing the answer.
\<close>

theorem checkAvailable_iff_no_overlap:
  "(checkAvailable room ci co bookings \<longleftrightarrow>
      \<not> (\<exists>b \<in> set bookings. number b = room \<and> checkin b < co \<and> checkout b > ci))
   \<and> (checkout b0 = ci \<longrightarrow>
        checkAvailable room ci co (b0 # bookings) = checkAvailable room ci co bookings)"
proof
  show "checkAvailable room ci co bookings \<longleftrightarrow>
      \<not> (\<exists>b \<in> set bookings. number b = room \<and> checkin b < co \<and> checkout b > ci)"
    by (induction bookings) auto
next
  show "checkout b0 = ci \<longrightarrow>
        checkAvailable room ci co (b0 # bookings) = checkAvailable room ci co bookings"
    by simp
qed

theorem checkAvailable_iff_no_overlap_witness:
  "checkout \<lparr>number = ''101'', checkin = ''2024-01-10'', checkout = ''2024-01-15''\<rparr> = ''2024-01-15''
   \<and> checkAvailable ''101'' ''2024-01-15'' ''2024-01-18''
        [\<lparr>number = ''101'', checkin = ''2024-01-10'', checkout = ''2024-01-15''\<rparr>]
   \<and> \<not> checkAvailable ''101'' ''2024-01-12'' ''2024-01-20''
        [\<lparr>number = ''101'', checkin = ''2024-01-10'', checkout = ''2024-01-15''\<rparr>]"
  using checkAvailable_iff_no_overlap
    [of "''101''" "''2024-01-15''" "''2024-01-18''" "[]"
        "\<lparr>number = ''101'', checkin = ''2024-01-10'', checkout = ''2024-01-15''\<rparr>"]
    checkAvailable_iff_no_overlap
    [of "''101''" "''2024-01-12''" "''2024-01-20''"
        "[\<lparr>number = ''101'', checkin = ''2024-01-10'', checkout = ''2024-01-15''\<rparr>]"]
  by simp

section \<open>C2: the date formatters\<close>

text \<open>
  Claim C2 says that for every numeric day, month and year (numbers or numeric strings) the
  formatter pads the day and the month to exactly two digits, so that the date has exactly
  ten characters whenever the day or the month is below 10. The code does not do that for
  every such input: a year of three digits is not padded, a day \<^verbatim>\<open>"05"\<close> compares below
  10 and gets a second zero, and a month of three digits stays as long as it is.
\<close>

theorem date_format_counterexample:
  "makeDateFromXML [Element ''checkin'' [Element ''day'' [Text ''5''],
       Element ''month'' [Text ''3''], Element ''year'' [Text ''999'']]] = ''999-03-05''
   \<and> length (makeDateFromXML [Element ''checkin'' [Element ''day'' [Text ''5''],
       Element ''month'' [Text ''3''], Element ''year'' [Text ''999'']]]) = 9
   \<and> makeDateFromXML [Element ''checkin'' [Element ''day'' [Text ''05''],
       Element ''month'' [Text ''3''], Element ''year'' [Text ''2024'']]] = ''2024-03-005''
   \<and> length (makeDateFromXML [Element ''checkin'' [Element ''day'' [Text ''05''],
       Element ''month'' [Text ''3''], Element ''year'' [Text ''2024'']]]) = 11
   \<and> makeDateFromXML [Element ''checkin'' [Element ''day'' [Text ''5''],
       Element ''month'' [Text ''100''], Element ''year'' [Text ''2024'']]] = ''2024-100-05''
   \<and> length (makeDateFromXML [Element ''checkin'' [Element ''day'' [Text ''5''],
       Element ''month'' [Text ''100''], Element ''year'' [Text ''2024'']]]) = 11
   \<and> getTodaysDate \<lparr>getDate = 5, getMonth = 2, getFullYear = 999\<rparr> = ''999-03-05''"
  by code_simp

text \<open>
  Claim C2, amended. When the day and the month are below 100 and are given as numbers
  (\<open>getTodaysDate\<close>) or as decimal numerals without leading zeros (\<open>makeDateFromXML\<close>),
  both formatters give the specification's date: the year as it is, and the month and the
  day zero-padded to exactly two digits, joined by hyphens. With a year of four digits
  that date has exactly ten characters (day 5, month 3, year 2024 give
  \<^verbatim>\<open>2024-03-05\<close>).
\<close>

theorem date_formatters_zero_pad:
  assumes "day < 100" and "month < 100"
  shows "(jq_text (jq_find ''day'' xmlDate) = string_of_nat day
          \<and> jq_text (jq_find ''month'' xmlDate) = string_of_nat month
          \<and> jq_text (jq_find ''year'' xmlDate) = string_of_nat year \<longrightarrow>
            makeDateFromXML xmlDate = spec_formatDate day month year)
     \<and> (getDate today = int day \<and> getMonth today + 1 = int month
          \<and> getFullYear today = int year \<longrightarrow>
            getTodaysDate today = spec_formatDate day month year)
     \<and> length (two_digits day) = 2 \<and> length (two_digits month) = 2
     \<and> (1000 \<le> year \<and> year \<le> 9999 \<longrightarrow> length (spec_formatDate day month year) = 10)"
proof (intro conjI impI)
  assume "jq_text (jq_find ''day'' xmlDate) = string_of_nat day
          \<and> jq_text (jq_find ''month'' xmlDate) = string_of_nat month
          \<and> jq_text (jq_find ''year'' xmlDate) = string_of_nat year"
  then show "makeDateFromXML xmlDate = spec_formatDate day month year"
    using assms by (simp add: makeDateFromXML_def Let_def pad_text spec_formatDate_def)
next
  assume "getDate today = int day \<and> getMonth today + 1 = int month
          \<and> getFullYear today = int year"
  then show "getTodaysDate today = spec_formatDate day month year"
    using getTodaysDate_spec [of today] assms by simp
next
  show "length (two_digits day) = 2" "length (two_digits month) = 2"
    by (simp_all add: two_digits_def)
next
  assume "1000 \<le> year \<and> year \<le> 9999"
  then show "length (spec_formatDate day month year) = 10"
    by (simp add: spec_formatDate_def two_digits_def length_string_of_nat_year)
qed

theorem date_formatters_zero_pad_witness:
  "makeDateFromXML [Element ''checkin'' [Element ''day'' [Text ''5''],
       Element ''month'' [Text ''3''], Element ''year'' [Text ''2024'']]] = ''2024-03-05''
   \<and> getTodaysDate \<lparr>getDate = 5, getMonth = 2, getFullYear = 2024\<rparr> = ''2024-03-05''
   \<and> spec_formatDate 5 3 2024 = ''2024-03-05''
   \<and> length (spec_formatDate 5 3 2024) = 10"
  using date_formatters_zero_pad [of 5 3
      "[Element ''checkin'' [Element ''day'' [Text ''5''],
       Element ''month'' [Text ''3''], Element ''year'' [Text ''2024'']]]" 2024
      "\<lparr>getDate = 5, getMonth = 2, getFullYear = 2024\<rparr>"]
  by (simp add: jq_text_def jq_find_def string_of_nat.simps digit_char_simps
      spec_formatDate_def two_digits_def)

section \<open>C3: the missing check-in date\<close>

text \<open>
  Claim C3. For some input of the find-room form in which the check-in date is missing,
  \<open>submitFindRoom\<close> sets the check-in error to \<^verbatim>\<open>You must enter a check in date.\<close>
  The code tests \<^verbatim>\<open>!checkin\<close> for that, on a string that always holds the two hyphens:
  the test never succeeds, for no clock and no page is that message written, and with the
  three selectors empty the date is \<^verbatim>\<open>--\<close> and the message is the one of a date in the
  past.
\<close>

theorem submitFindRoom_missing_checkin_unreachable:
  "truthy (getDateFromForm dd mm yyyy)
   \<and> checkinError (fst (snd (submitFindRoom today p))) \<noteq> ''You must enter a check in date.''
   \<and> getDateFromForm (Str []) (Str []) (Str []) = ''--''
   \<and> checkinError (fst (snd (submitFindRoom \<lparr>getDate = 5, getMonth = 2, getFullYear = 2024\<rparr>
         blank_page))) = ''You can't book in the past.''"
proof -
  have "checkinError (fst (snd (submitFindRoom \<lparr>getDate = 5, getMonth = 2, getFullYear = 2024\<rparr>
         blank_page))) = ''You can't book in the past.''"
    by (simp add: submitFindRoom_checkinError blank_page_def getDateFromForm_def getTodaysDate_def
        NumberToString_def string_of_nat.simps digit_char_simps)
  moreover have "getDateFromForm (Str []) (Str []) (Str []) = ''--''"
    by (simp add: getDateFromForm_def)
  moreover have "checkinError (fst (snd (submitFindRoom today p))) \<noteq> ''You must enter a check in date.''"
    by (simp add: submitFindRoom_checkinError)
  ultimately show ?thesis
    using getDateFromForm_truthy [of dd mm yyyy] by blast
qed

section \<open>C4: the values the two handlers return\<close>

text \<open>
  Claim C4 says that both handlers always return the value that suppresses the default
  submit of the form. \<open>submitBookRoom\<close> returns true for a booking it accepts, and a
  handler that returns true does not suppress the default action.
\<close>

theorem submitBookRoom_returns_true_counterexample:
  "fst (submitBookRoom loadLocalBookings saveLocalBookings (blank_page\<lparr>bookingName := Str ''Al''\<rparr>)
          \<lparr>stored = [], accesses = []\<rparr>) = True
   \<and> \<not> suppressesDefault
        (fst (submitBookRoom loadLocalBookings saveLocalBookings
               (blank_page\<lparr>bookingName := Str ''Al''\<rparr>) \<lparr>stored = [], accesses = []\<rparr>))"
  by (simp add: suppressesDefault_def submitBookRoom_def Let_def truthy_def loadLocalBookings_def
      trim_ws_def is_ws_def)

text \<open>
  Claim C4, amended. \<open>submitFindRoom\<close> returns false for every input, which suppresses
  the default submit. \<open>submitBookRoom\<close> returns false, and suppresses it, exactly when
  the guest name is empty after trimming; for a name that is not empty it returns true
  (whatever the store functions do).
\<close>

theorem submit_handlers_returned:
  "fst (submitFindRoom today p) = False
   \<and> suppressesDefault (fst (submitFindRoom today p))
   \<and> (suppressesDefault (fst (submitBookRoom load save q st)) \<longleftrightarrow> trim (bookingName q) = [])
   \<and> (fst (submitBookRoom load save q st) = True \<longleftrightarrow> trim (bookingName q) \<noteq> [])"
  by (simp add: suppressesDefault_def submitFindRoom_returned submitBookRoom_def Let_def
      truthy_def split: prod.splits)

theorem submit_handlers_returned_witness:
  "suppressesDefault (fst (submitFindRoom \<lparr>getDate = 5, getMonth = 2, getFullYear = 2024\<rparr> blank_page))
   \<and> suppressesDefault
        (fst (submitBookRoom loadLocalBookings saveLocalBookings
               (blank_page\<lparr>bookingName := Str ''   ''\<rparr>) \<lparr>stored = [], accesses = []\<rparr>))
   \<and> fst (submitBookRoom loadLocalBookings saveLocalBookings
             (blank_page\<lparr>bookingName := Str ''Al''\<rparr>) \<lparr>stored = [], accesses = []\<rparr>) = True"
  using submit_handlers_returned
      [of "\<lparr>getDate = 5, getMonth = 2, getFullYear = 2024\<rparr>" blank_page
          loadLocalBookings saveLocalBookings "blank_page\<lparr>bookingName := Str ''   ''\<rparr>"
          "\<lparr>stored = [], accesses = []\<rparr>"]
    submit_handlers_returned
      [of "\<lparr>getDate = 5, getMonth = 2, getFullYear = 2024\<rparr>" blank_page
          loadLocalBookings saveLocalBookings "blank_page\<lparr>bookingName := Str ''Al''\<rparr>"
          "\<lparr>stored = [], accesses = []\<rparr>"]
  by (simp add: trim_ws_def is_ws_def)

section \<open>C5: the date rules of the find-room form\<close>

text \<open>
  Claim C5. For check-in and check-out dates that are present in the canonical form
  yyyy-mm-dd, \<open>submitFindRoom\<close> rejects a check-in earlier than today's date with
  \<^verbatim>\<open>You can't book in the past.\<close>, a check-out earlier than the check-in with
  \<^verbatim>\<open>You can't check out before you check in.\<close> and a check-out on the day of the
  check-in with \<^verbatim>\<open>You must stay at least one night.\<close>; when the check-in is not before
  today and the check-out is after the check-in it writes no error and goes on to the room
  search with the two dates. Earlier is meant chronologically, on the year, month and day
  that the strings denote and that the clock shows; the clock is in a year of four digits,
  so that today's date is in the canonical form as well.
\<close>

theorem submitFindRoom_date_rules:
  assumes "canonical ci" and "canonical co"
    and "js_date today" and "1000 \<le> getFullYear today" and "getFullYear today \<le> 9999"
    and "getDateFromForm (checkinday p) (checkinmonth p) (checkinyear p) = ci"
    and "getDateFromForm (checkoutday p) (checkoutmonth p) (checkoutyear p) = co"
    and "submitFindRoom today p = (returned, p', call)"
  shows "(earlier_date (date_of ci) (clock_date today) \<longrightarrow>
            checkinError p' = ''You can't book in the past.'' \<and> call = None)
     \<and> (earlier_date (date_of co) (date_of ci) \<longrightarrow>
            checkoutError p' = ''You can't check out before you check in.'' \<and> call = None)
     \<and> (date_of co = date_of ci \<longrightarrow>
            checkoutError p' = ''You must stay at least one night.'' \<and> call = None)
     \<and> (\<not> earlier_date (date_of ci) (clock_date today) \<and> earlier_date (date_of ci) (date_of co) \<longrightarrow>
            checkinError p' = [] \<and> checkoutError p' = [] \<and> call = Some (ci, co))"
proof -
  have p': "p' = fst (snd (submitFindRoom today p))" and call: "call = snd (snd (submitFindRoom today p))"
    using assms(8) by simp_all
  note ct = getTodaysDate_canonical [OF assms(3) assms(4) assms(5)]
  note o1 = canonical_order [OF assms(1) ct(1)]
  note o2 = canonical_order [OF assms(2) assms(1)]
  note o3 = canonical_order [OF assms(1) assms(2)]
  have e1: "checkinError p' =
     (if earlier_date (date_of ci) (clock_date today) then ''You can't book in the past.'' else [])"
    by (simp add: p' submitFindRoom_checkinError assms(6) o1 earlier_def ct(2))
  have e2: "checkoutError p' =
     (if earlier_date (date_of co) (date_of ci) then ''You can't check out before you check in.''
      else if date_of co = date_of ci then ''You must stay at least one night.'' else [])"
    by (simp add: p' submitFindRoom_checkoutError assms(6,7) o2 earlier_def)
  have e3: "call =
     (if \<not> earlier_date (date_of ci) (clock_date today) \<and> earlier_date (date_of ci) (date_of co)
      then Some (ci, co) else None)"
    by (simp add: call submitFindRoom_call assms(6,7) o1 o3 earlier_def ct(2))
  have x1: "earlier_date (date_of co) (date_of ci) \<Longrightarrow> \<not> earlier_date (date_of ci) (date_of co)"
    using o2(1) o3(1) by (auto simp: earlier_def)
  have x2: "date_of co = date_of ci \<Longrightarrow>
      \<not> earlier_date (date_of ci) (date_of co) \<and> \<not> earlier_date (date_of co) (date_of ci)"
    using o2 o3(1) by (auto simp: earlier_def)
  show ?thesis
    using x1 x2 by (auto simp: e1 e2 e3)
qed

theorem submitFindRoom_date_rules_witness:
  "canonical ''2024-06-01'' \<and> canonical ''2024-06-03'' \<and> canonical ''2024-01-01''
   \<and> js_date \<lparr>getDate = 5, getMonth = 2, getFullYear = 2024\<rparr>
   \<and> clock_date \<lparr>getDate = 5, getMonth = 2, getFullYear = 2024\<rparr> = (2024, 3, 5)
   \<and> date_of ''2024-06-01'' = (2024, 6, 1) \<and> date_of ''2024-06-03'' = (2024, 6, 3)
   \<and> date_of ''2024-01-01'' = (2024, 1, 1)
   \<and> submitFindRoom \<lparr>getDate = 5, getMonth = 2, getFullYear = 2024\<rparr>
         (blank_page\<lparr>checkinday := Str ''01'', checkinmonth := Str ''06'', checkinyear := Str ''2024'',
            checkoutday := Str ''03'', checkoutmonth := Str ''06'', checkoutyear := Str ''2024''\<rparr>)
       = (False,
          blank_page\<lparr>checkinday := Str ''01'', checkinmonth := Str ''06'', checkinyear := Str ''2024'',
            checkoutday := Str ''03'', checkoutmonth := Str ''06'', checkoutyear := Str ''2024'',
            checkinDate := Str ''2024-06-01'', checkoutDate := Str ''2024-06-03'',
            findRoomFormDisabled := True, searchingForRooms := True\<rparr>,
          Some (''2024-06-01'', ''2024-06-03''))
   \<and> checkinError (fst (snd (submitFindRoom \<lparr>getDate = 5, getMonth = 2, getFullYear = 2024\<rparr>
         (blank_page\<lparr>checkinday := Str ''01'', checkinmonth := Str ''01'', checkinyear := Str ''2024'',
            checkoutday := Str ''01'', checkoutmonth := Str ''01'', checkoutyear := Str ''2024''\<rparr>))))
       = ''You can't book in the past.''
   \<and> checkoutError (fst (snd (submitFindRoom \<lparr>getDate = 5, getMonth = 2, getFullYear = 2024\<rparr>
         (blank_page\<lparr>checkinday := Str ''01'', checkinmonth := Str ''01'', checkinyear := Str ''2024'',
            checkoutday := Str ''01'', checkoutmonth := Str ''01'', checkoutyear := Str ''2024''\<rparr>))))
       = ''You must stay at least one night.''
   \<and> checkoutError (fst (snd (submitFindRoom \<lparr>getDate = 5, getMonth = 2, getFullYear = 2024\<rparr>
         (blank_page\<lparr>checkinday := Str ''03'', checkinmonth := Str ''06'', checkinyear := Str ''2024'',
            checkoutday := Str ''01'', checkoutmonth := Str ''06'', checkoutyear := Str ''2024''\<rparr>))))
       = ''You can't check out before you check in.''"
proof -
  let ?t = "\<lparr>getDate = 5, getMonth = 2, getFullYear = 2024\<rparr>"
  let ?p = "blank_page\<lparr>checkinday := Str ''01'', checkinmonth := Str ''06'', checkinyear := Str ''2024'',
            checkoutday := Str ''03'', checkoutmonth := Str ''06'', checkoutyear := Str ''2024''\<rparr>"
  let ?q = "blank_page\<lparr>checkinday := Str ''01'', checkinmonth := Str ''01'', checkinyear := Str ''2024'',
            checkoutday := Str ''01'', checkoutmonth := Str ''01'', checkoutyear := Str ''2024''\<rparr>"
  let ?r = "blank_page\<lparr>checkinday := Str ''03'', checkinmonth := Str ''06'', checkinyear := Str ''2024'',
            checkoutday := Str ''01'', checkoutmonth := Str ''06'', checkoutyear := Str ''2024''\<rparr>"
  have c: "canonical ''2024-06-01''" "canonical ''2024-06-03''" "canonical ''2024-01-01''"
    by code_simp+
  have j: "js_date ?t" and y: "1000 \<le> getFullYear ?t" "getFullYear ?t \<le> 9999"
    by (simp_all add: js_date_def)
  have d: "clock_date ?t = (2024, 3, 5)" "date_of ''2024-06-01'' = (2024, 6, 1)"
    "date_of ''2024-06-03'' = (2024, 6, 3)" "date_of ''2024-01-01'' = (2024, 1, 1)"
    by (simp_all add: clock_date_def date_of_def radix_val_def digit_of_def)
  have f: "getDateFromForm (checkinday ?p) (checkinmonth ?p) (checkinyear ?p) = ''2024-06-01''"
    "getDateFromForm (checkoutday ?p) (checkoutmonth ?p) (checkoutyear ?p) = ''2024-06-03''"
    "getDateFromForm (checkinday ?q) (checkinmonth ?q) (checkinyear ?q) = ''2024-01-01''"
    "getDateFromForm (checkoutday ?q) (checkoutmonth ?q) (checkoutyear ?q) = ''2024-01-01''"
    "getDateFromForm (checkinday ?r) (checkinmonth ?r) (checkinyear ?r) = ''2024-06-03''"
    "getDateFromForm (checkoutday ?r) (checkoutmonth ?r) (checkoutyear ?r) = ''2024-06-01''"
    by (simp_all add: getDateFromForm_def)
  have sp: "submitFindRoom ?t ?p = (fst (submitFindRoom ?t ?p), fst (snd (submitFindRoom ?t ?p)),
      snd (snd (submitFindRoom ?t ?p)))" by simp
  have sq: "submitFindRoom ?t ?q = (fst (submitFindRoom ?t ?q), fst (snd (submitFindRoom ?t ?q)),
      snd (snd (submitFindRoom ?t ?q)))" by simp
  have sr: "submitFindRoom ?t ?r = (fst (submitFindRoom ?t ?r), fst (snd (submitFindRoom ?t ?r)),
      snd (snd (submitFindRoom ?t ?r)))" by simp
  have vp: "snd (snd (submitFindRoom ?t ?p)) = Some (''2024-06-01'', ''2024-06-03'')"
    using submitFindRoom_date_rules [OF c(1) c(2) j y f(1) f(2) sp] by (simp add: d)
  have v: "submitFindRoom ?t ?p = (False,
          ?p\<lparr>checkinDate := Str ''2024-06-01'', checkoutDate := Str ''2024-06-03'',
            findRoomFormDisabled := True, searchingForRooms := True\<rparr>,
          Some (''2024-06-01'', ''2024-06-03''))"
    using vp
    by (simp add: submitFindRoom_def Let_def getDateFromForm_def truthy_def blank_page_def
        split: if_splits)
  have vq: "checkinError (fst (snd (submitFindRoom ?t ?q))) = ''You can't book in the past.''"
    "checkoutError (fst (snd (submitFindRoom ?t ?q))) = ''You must stay at least one night.''"
    using submitFindRoom_date_rules [OF c(3) c(3) j y f(3) f(4) sq] by (simp_all add: d)
  have vr: "checkoutError (fst (snd (submitFindRoom ?t ?r))) = ''You can't check out before you check in.''"
    using submitFindRoom_date_rules [OF c(2) c(1) j y f(5) f(6) sr] by (simp add: d)
  show ?thesis
    using c j d v vq vr by simp
qed

section \<open>C6: the two checks of the find-room form\<close>

text \<open>
  Claim C6. For every input of the find-room form \<open>submitFindRoom\<close> runs the check-in
  check and the check-out check independently, and the room search is started exactly
  when both pass. The check-in error it writes is decided by the check-in date and today's
  date alone, the check-out error by the two dates alone, whatever the outcome of the
  check-in check: so the check-in error is the same on every page with the same check-in
  selectors, and the check-out error is the same under every clock. \<open>setupBookRoom\<close> is
  called, with the two dates, exactly when both errors are empty; the page is then the one
  prepared for the search, and otherwise the page with the two error texts set and nothing
  else changed. Each of the four outcomes occurs: both checks pass and the search starts,
  only the check-in check fails, only the check-out check fails, and both fail in one
  submission.
\<close>

theorem submitFindRoom_checks_independent:
  assumes "getDateFromForm (checkinday p) (checkinmonth p) (checkinyear p) = ci"
    and "getDateFromForm (checkoutday p) (checkoutmonth p) (checkoutyear p) = co"
    and "submitFindRoom today p = (returned, p', call)"
  shows "checkinError p' = (if ci < getTodaysDate today then ''You can't book in the past.'' else [])
   \<and> checkoutError p' =
        (if co < ci then ''You can't check out before you check in.''
         else if co = ci then ''You must stay at least one night.'' else [])
   \<and> call = (if checkinError p' = [] \<and> checkoutError p' = [] then Some (ci, co) else None)
   \<and> (call = Some (ci, co) \<longrightarrow>
         p' = p\<lparr>checkinError := [], checkoutError := [], checkinDate := Str ci,
                 checkoutDate := Str co, findRoomFormDisabled := True, searchingForRooms := True\<rparr>)
   \<and> (call = None \<longrightarrow>
         p' = p\<lparr>checkinError := checkinError p', checkoutError := checkoutError p'\<rparr>)
   \<and> (checkinday p = checkinday q \<and> checkinmonth p = checkinmonth q \<and> checkinyear p = checkinyear q
         \<longrightarrow> checkinError (fst (snd (submitFindRoom today q))) = checkinError p')
   \<and> checkoutError (fst (snd (submitFindRoom today' p))) = checkoutError p'
   \<and> (\<exists>t q. checkinError (fst (snd (submitFindRoom t q))) = []
          \<and> checkoutError (fst (snd (submitFindRoom t q))) = []
          \<and> snd (snd (submitFindRoom t q)) \<noteq> None)
   \<and> (\<exists>t q. checkinError (fst (snd (submitFindRoom t q))) \<noteq> []
          \<and> checkoutError (fst (snd (submitFindRoom t q))) = []
          \<and> snd (snd (submitFindRoom t q)) = None)
   \<and> (\<exists>t q. checkinError (fst (snd (submitFindRoom t q))) = []
          \<and> checkoutError (fst (snd (submitFindRoom t q))) \<noteq> []
          \<and> snd (snd (submitFindRoom t q)) = None)
   \<and> (\<exists>t q. checkinError (fst (snd (submitFindRoom t q))) \<noteq> []
          \<and> checkoutError (fst (snd (submitFindRoom t q))) \<noteq> []
          \<and> snd (snd (submitFindRoom t q)) = None)"
proof -
  have p': "p' = fst (snd (submitFindRoom today p))" and call: "call = snd (snd (submitFindRoom today p))"
    using assms(3) by simp_all
  have e1: "checkinError p' = (if ci < getTodaysDate today then ''You can't book in the past.'' else [])"
    by (simp add: p' submitFindRoom_checkinError assms(1))
  have e2: "checkoutError p' =
        (if co < ci then ''You can't check out before you check in.''
         else if co = ci then ''You must stay at least one night.'' else [])"
    by (simp add: p' submitFindRoom_checkoutError assms(1,2))
  have e3: "call = (if checkinError p' = [] \<and> checkoutError p' = [] then Some (ci, co) else None)"
  proof -
    have c1: "(checkinError p' = []) = (\<not> ci < getTodaysDate today)"
      by (simp add: e1)
    have c2: "(checkoutError p' = []) = (ci < co)"
      by (cases rule: linorder_cases [of co ci]) (auto simp add: e2)
    show ?thesis
      by (simp add: call submitFindRoom_call assms(1,2) Let_def c1 c2)
  qed
  note pg = submitFindRoom_page [OF assms(1) assms(2), of today]
  have e4: "call = Some (ci, co) \<longrightarrow>
         p' = p\<lparr>checkinError := [], checkoutError := [], checkinDate := Str ci,
                 checkoutDate := Str co, findRoomFormDisabled := True, searchingForRooms := True\<rparr>"
    using pg by (simp add: p' call submitFindRoom_call assms(1,2) Let_def)
  have e5: "call = None \<longrightarrow>
         p' = p\<lparr>checkinError := checkinError p', checkoutError := checkoutError p'\<rparr>"
    using pg by (simp add: p' call submitFindRoom_call assms(1,2) Let_def)
  have e6: "checkinday p = checkinday q \<and> checkinmonth p = checkinmonth q \<and> checkinyear p = checkinyear q
         \<longrightarrow> checkinError (fst (snd (submitFindRoom today q))) = checkinError p'"
    by (simp add: p' submitFindRoom_checkinError)
  have e7: "checkoutError (fst (snd (submitFindRoom today' p))) = checkoutError p'"
    by (simp add: p' submitFindRoom_checkoutError)
  let ?t = "\<lparr>getDate = 5, getMonth = 2, getFullYear = 2024\<rparr>"
  let ?a = "blank_page\<lparr>checkinday := Str ''01'', checkinmonth := Str ''06'', checkinyear := Str ''2024'',
            checkoutday := Str ''03'', checkoutmonth := Str ''06'', checkoutyear := Str ''2024''\<rparr>"
  let ?b = "blank_page\<lparr>checkinday := Str ''01'', checkinmonth := Str ''01'', checkinyear := Str ''2024'',
            checkoutday := Str ''03'', checkoutmonth := Str ''01'', checkoutyear := Str ''2024''\<rparr>"
  let ?c = "blank_page\<lparr>checkinday := Str ''03'', checkinmonth := Str ''06'', checkinyear := Str ''2024'',
            checkoutday := Str ''01'', checkoutmonth := Str ''06'', checkoutyear := Str ''2024''\<rparr>"
  have t: "getTodaysDate ?t = ''2024-03-05''" by code_simp
  note ev = submitFindRoom_checkinError submitFindRoom_checkoutError submitFindRoom_call
    getDateFromForm_def blank_page_def t Let_def
  have xa: "checkinError (fst (snd (submitFindRoom ?t ?a))) = []
          \<and> checkoutError (fst (snd (submitFindRoom ?t ?a))) = []
          \<and> snd (snd (submitFindRoom ?t ?a)) \<noteq> None"
    by (simp add: ev)
  have xb: "checkinError (fst (snd (submitFindRoom ?t ?b))) \<noteq> []
          \<and> checkoutError (fst (snd (submitFindRoom ?t ?b))) = []
          \<and> snd (snd (submitFindRoom ?t ?b)) = None"
    by (simp add: ev)
  have xc: "checkinError (fst (snd (submitFindRoom ?t ?c))) = []
          \<and> checkoutError (fst (snd (submitFindRoom ?t ?c))) \<noteq> []
          \<and> snd (snd (submitFindRoom ?t ?c)) = None"
    by (simp add: ev)
  have xd: "checkinError (fst (snd (submitFindRoom ?t blank_page))) \<noteq> []
          \<and> checkoutError (fst (snd (submitFindRoom ?t blank_page))) \<noteq> []
          \<and> snd (snd (submitFindRoom ?t blank_page)) = None"
    by (simp add: ev)
  have ya: "\<exists>t q. checkinError (fst (snd (submitFindRoom t q))) = []
          \<and> checkoutError (fst (snd (submitFindRoom t q))) = []
          \<and> snd (snd (submitFindRoom t q)) \<noteq> None"
    using xa by blast
  have yb: "\<exists>t q. checkinError (fst (snd (submitFindRoom t q))) \<noteq> []
          \<and> checkoutError (fst (snd (submitFindRoom t q))) = []
          \<and> snd (snd (submitFindRoom t q)) = None"
    using xb by blast
  have yc: "\<exists>t q. checkinError (fst (snd (submitFindRoom t q))) = []
          \<and> checkoutError (fst (snd (submitFindRoom t q))) \<noteq> []
          \<and> snd (snd (submitFindRoom t q)) = None"
    using xc by blast
  have yd: "\<exists>t q. checkinError (fst (snd (submitFindRoom t q))) \<noteq> []
          \<and> checkoutError (fst (snd (submitFindRoom t q))) \<noteq> []
          \<and> snd (snd (submitFindRoom t q)) = None"
    using xd by blast
  show ?thesis
    using e1 e2 e3 e4 e5 e6 e7 ya yb yc yd by (intro conjI)
qed

theorem submitFindRoom_checks_independent_witness:
  "submitFindRoom \<lparr>getDate = 5, getMonth = 2, getFullYear = 2024\<rparr>
      (blank_page\<lparr>checkinday := Str ''01'', checkinmonth := Str ''06'', checkinyear := Str ''2024'',
         checkoutday := Str ''03'', checkoutmonth := Str ''06'', checkoutyear := Str ''2024''\<rparr>)
     = (False,
        blank_page\<lparr>checkinday := Str ''01'', checkinmonth := Str ''06'', checkinyear := Str ''2024'',
          checkoutday := Str ''03'', checkoutmonth := Str ''06'', checkoutyear := Str ''2024'',
          checkinDate := Str ''2024-06-01'', checkoutDate := Str ''2024-06-03'',
          findRoomFormDisabled := True, searchingForRooms := True\<rparr>,
        Some (''2024-06-01'', ''2024-06-03''))
   \<and> submitFindRoom \<lparr>getDate = 5, getMonth = 2, getFullYear = 2024\<rparr>
      (blank_page\<lparr>checkinday := Str ''01'', checkinmonth := Str ''01'', checkinyear := Str ''2024'',
         checkoutday := Str ''03'', checkoutmonth := Str ''01'', checkoutyear := Str ''2024''\<rparr>)
     = (False,
        blank_page\<lparr>checkinday := Str ''01'', checkinmonth := Str ''01'', checkinyear := Str ''2024'',
          checkoutday := Str ''03'', checkoutmonth := Str ''01'', checkoutyear := Str ''2024'',
          checkinError := ''You can't book in the past.''\<rparr>,
        None)
   \<and> submitFindRoom \<lparr>getDate = 5, getMonth = 2, getFullYear = 2024\<rparr>
      (blank_page\<lparr>checkinday := Str ''03'', checkinmonth := Str ''06'', checkinyear := Str ''2024'',
         checkoutday := Str ''01'', checkoutmonth := Str ''06'', checkoutyear := Str ''2024''\<rparr>)
     = (False,
        blank_page\<lparr>checkinday := Str ''03'', checkinmonth := Str ''06'', checkinyear := Str ''2024'',
          checkoutday := Str ''01'', checkoutmonth := Str ''06'', checkoutyear := Str ''2024'',
          checkoutError := ''You can't check out before you check in.''\<rparr>,
        None)
   \<and> submitFindRoom \<lparr>getDate = 5, getMonth = 2, getFullYear = 2024\<rparr> blank_page
     = (False,
        blank_page\<lparr>checkinError := ''You can't book in the past.'',
          checkoutError := ''You must stay at least one night.''\<rparr>,
        None)"
proof -
  let ?t = "\<lparr>getDate = 5, getMonth = 2, getFullYear = 2024\<rparr>"
  let ?a = "blank_page\<lparr>checkinday := Str ''01'', checkinmonth := Str ''06'', checkinyear := Str ''2024'',
            checkoutday := Str ''03'', checkoutmonth := Str ''06'', checkoutyear := Str ''2024''\<rparr>"
  let ?b = "blank_page\<lparr>checkinday := Str ''01'', checkinmonth := Str ''01'', checkinyear := Str ''2024'',
            checkoutday := Str ''03'', checkoutmonth := Str ''01'', checkoutyear := Str ''2024''\<rparr>"
  let ?c = "blank_page\<lparr>checkinday := Str ''03'', checkinmonth := Str ''06'', checkinyear := Str ''2024'',
            checkoutday := Str ''01'', checkoutmonth := Str ''06'', checkoutyear := Str ''2024''\<rparr>"
  have t: "getTodaysDate ?t = ''2024-03-05''" by code_simp
  have r: "\<And>q. fst (submitFindRoom ?t q) = False" by (rule submitFindRoom_returned)
  have s: "\<And>q. submitFindRoom ?t q =
      (fst (submitFindRoom ?t q), fst (snd (submitFindRoom ?t q)), snd (snd (submitFindRoom ?t q)))"
    by simp
  have fa: "getDateFromForm (checkinday ?a) (checkinmonth ?a) (checkinyear ?a) = ''2024-06-01''"
    "getDateFromForm (checkoutday ?a) (checkoutmonth ?a) (checkoutyear ?a) = ''2024-06-03''"
    by (simp_all add: getDateFromForm_def)
  have fb: "getDateFromForm (checkinday ?b) (checkinmonth ?b) (checkinyear ?b) = ''2024-01-01''"
    "getDateFromForm (checkoutday ?b) (checkoutmonth ?b) (checkoutyear ?b) = ''2024-01-03''"
    by (simp_all add: getDateFromForm_def)
  have fc: "getDateFromForm (checkinday ?c) (checkinmonth ?c) (checkinyear ?c) = ''2024-06-03''"
    "getDateFromForm (checkoutday ?c) (checkoutmonth ?c) (checkoutyear ?c) = ''2024-06-01''"
    by (simp_all add: getDateFromForm_def)
  have fd: "getDateFromForm (checkinday blank_page) (checkinmonth blank_page) (checkinyear blank_page) = ''--''"
    "getDateFromForm (checkoutday blank_page) (checkoutmonth blank_page) (checkoutyear blank_page) = ''--''"
    by (simp_all add: getDateFromForm_def blank_page_def)
  have be: "checkinError blank_page = []" "checkoutError blank_page = []"
    by (simp_all add: blank_page_def)
  note ta = submitFindRoom_checks_independent [OF fa(1) fa(2) s [of ?a], where q = blank_page and today' = ?t]
  note tb = submitFindRoom_checks_independent [OF fb(1) fb(2) s [of ?b], where q = blank_page and today' = ?t]
  note tc = submitFindRoom_checks_independent [OF fc(1) fc(2) s [of ?c], where q = blank_page and today' = ?t]
  note td = submitFindRoom_checks_independent [OF fd(1) fd(2) s [of blank_page], where q = blank_page and today' = ?t]
  have a1: "checkinError (fst (snd (submitFindRoom ?t ?a))) = []"
    using ta [THEN conjunct1] by (simp add: t)
  have a2: "checkoutError (fst (snd (submitFindRoom ?t ?a))) = []"
    using ta [THEN conjunct2, THEN conjunct1] by simp
  have a3: "snd (snd (submitFindRoom ?t ?a)) = Some (''2024-06-01'', ''2024-06-03'')"
    using ta [THEN conjunct2, THEN conjunct2, THEN conjunct1] by (simp add: a1 a2)
  have a4: "fst (snd (submitFindRoom ?t ?a)) =
      ?a\<lparr>checkinDate := Str ''2024-06-01'', checkoutDate := Str ''2024-06-03'',
          findRoomFormDisabled := True, searchingForRooms := True\<rparr>"
  proof -
    have "fst (snd (submitFindRoom ?t ?a)) =
        ?a\<lparr>checkinError := [], checkoutError := [], checkinDate := Str ''2024-06-01'',
            checkoutDate := Str ''2024-06-03'', findRoomFormDisabled := True,
            searchingForRooms := True\<rparr>"
      using ta [THEN conjunct2, THEN conjunct2, THEN conjunct2, THEN conjunct1] a3 by simp
    then show ?thesis by (simp add: blank_page_def)
  qed
  have a: "submitFindRoom ?t ?a = (False,
        ?a\<lparr>checkinDate := Str ''2024-06-01'', checkoutDate := Str ''2024-06-03'',
          findRoomFormDisabled := True, searchingForRooms := True\<rparr>,
        Some (''2024-06-01'', ''2024-06-03''))"
    by (subst s) (simp only: r a3 a4)
  have b1: "checkinError (fst (snd (submitFindRoom ?t ?b))) = ''You can't book in the past.''"
    using tb [THEN conjunct1] by (simp add: t)
  have b2: "checkoutError (fst (snd (submitFindRoom ?t ?b))) = []"
    using tb [THEN conjunct2, THEN conjunct1] by simp
  have b3: "snd (snd (submitFindRoom ?t ?b)) = None"
    using tb [THEN conjunct2, THEN conjunct2, THEN conjunct1] by (simp add: b1)
  have "fst (snd (submitFindRoom ?t ?b)) =
      ?b\<lparr>checkinError := ''You can't book in the past.'', checkoutError := []\<rparr>"
    using tb [THEN conjunct2, THEN conjunct2, THEN conjunct2, THEN conjunct2, THEN conjunct1] b3
    by (simp add: b1 b2)
  then have b4: "fst (snd (submitFindRoom ?t ?b)) = ?b\<lparr>checkinError := ''You can't book in the past.''\<rparr>"
    by (simp add: blank_page_def)
  have b: "submitFindRoom ?t ?b = (False, ?b\<lparr>checkinError := ''You can't book in the past.''\<rparr>, None)"
    by (subst s) (simp only: r b3 b4)
  have c1: "checkinError (fst (snd (submitFindRoom ?t ?c))) = []"
    using tc [THEN conjunct1] by (simp add: t)
  have c2: "checkoutError (fst (snd (submitFindRoom ?t ?c))) = ''You can't check out before you check in.''"
    using tc [THEN conjunct2, THEN conjunct1] by simp
  have c3: "snd (snd (submitFindRoom ?t ?c)) = None"
    using tc [THEN conjunct2, THEN conjunct2, THEN conjunct1] by (simp add: c2)
  have "fst (snd (submitFindRoom ?t ?c)) =
      ?c\<lparr>checkinError := [], checkoutError := ''You can't check out before you check in.''\<rparr>"
    using tc [THEN conjunct2, THEN conjunct2, THEN conjunct2, THEN conjunct2, THEN conjunct1] c3
    by (simp add: c1 c2)
  then have c4: "fst (snd (submitFindRoom ?t ?c)) =
      ?c\<lparr>checkoutError := ''You can't check out before you check in.''\<rparr>"
    by (simp add: blank_page_def)
  have c: "submitFindRoom ?t ?c =
      (False, ?c\<lparr>checkoutError := ''You can't check out before you check in.''\<rparr>, None)"
    by (subst s) (simp only: r c3 c4)
  have d1: "checkinError (fst (snd (submitFindRoom ?t blank_page))) = ''You can't book in the past.''"
    using td [THEN conjunct1] by (simp add: t)
  have d2: "checkoutError (fst (snd (submitFindRoom ?t blank_page))) = ''You must stay at least one night.''"
    using td [THEN conjunct2, THEN conjunct1] by simp
  have d3: "snd (snd (submitFindRoom ?t blank_page)) = None"
    using td [THEN conjunct2, THEN conjunct2, THEN conjunct1] by (simp add: d1)
  have d4: "fst (snd (submitFindRoom ?t blank_page)) =
      blank_page\<lparr>checkinError := ''You can't book in the past.'',
          checkoutError := ''You must stay at least one night.''\<rparr>"
    using td [THEN conjunct2, THEN conjunct2, THEN conjunct2, THEN conjunct2, THEN conjunct1] d3
    by (simp add: d1 d2)
  have d: "submitFindRoom ?t blank_page =
      (False, blank_page\<lparr>checkinError := ''You can't book in the past.'',
          checkoutError := ''You must stay at least one night.''\<rparr>, None)"
    by (subst s) (simp only: r d3 d4)
  show ?thesis
    by (intro conjI a b c d)
qed

section \<open>C7: the guest name\<close>

text \<open>
  Claim C7. When the guest name is empty after trimming (which is the case exactly for
  the names made of white space only, as \<^verbatim>\<open>"   "\<close>), \<open>submitBookRoom\<close> sets the name
  error to \<^verbatim>\<open>You must enter a booking name\<close> and rejects the submission, leaving the
  store as it is. For every other name it accepts: it clears the error, returns true and
  saves the list it loaded with the pending booking appended; on the specification's
  store the list stored afterwards is the list stored before with that booking at its end.
\<close>

theorem submitBookRoom_name_rule:
  "(trim (bookingName p) = [] \<longrightarrow>
      submitBookRoom load save p st =
        (False, p\<lparr>nameError := ''You must enter a booking name''\<rparr>, st))
   \<and> (trim (bookingName p) \<noteq> [] \<longrightarrow>
      submitBookRoom load save p st =
        (True, p\<lparr>nameError := []\<rparr>,
         save (fst (load st) @ [\<lparr>nb_number = roomSelection p, nb_checkin = checkinDate p,
                                  nb_checkout = checkoutDate p, nb_name = trim (bookingName p)\<rparr>])
              (snd (load st)))
      \<and> stored (snd (snd (submitBookRoom loadLocalBookings saveLocalBookings p st'))) =
          stored st' @ [\<lparr>nb_number = roomSelection p, nb_checkin = checkinDate p,
                         nb_checkout = checkoutDate p, nb_name = trim (bookingName p)\<rparr>])
   \<and> (trim (Str s) = [] \<longleftrightarrow> list_all is_ws s)"
  by (simp add: submitBookRoom_def Let_def truthy_def loadLocalBookings_def saveLocalBookings_def
      trim_ws_empty_iff split: prod.splits)

theorem submitBookRoom_name_rule_witness:
  "trim (Str ''   '') = []
   \<and> submitBookRoom loadLocalBookings saveLocalBookings (blank_page\<lparr>bookingName := Str ''   ''\<rparr>)
         \<lparr>stored = [], accesses = []\<rparr>
       = (False, blank_page\<lparr>bookingName := Str ''   '', nameError := ''You must enter a booking name''\<rparr>,
          \<lparr>stored = [], accesses = []\<rparr>)
   \<and> trim (Str '' Al '') = ''Al''
   \<and> stored (snd (snd (submitBookRoom loadLocalBookings saveLocalBookings
        (blank_page\<lparr>bookingName := Str '' Al '', roomSelection := Str ''101'',
           checkinDate := Str ''2024-06-01'', checkoutDate := Str ''2024-06-03''\<rparr>)
        \<lparr>stored = [], accesses = []\<rparr>)))
       = [\<lparr>nb_number = Str ''101'', nb_checkin = Str ''2024-06-01'',
           nb_checkout = Str ''2024-06-03'', nb_name = ''Al''\<rparr>]"
proof -
  have a: "trim_ws ''   '' = []" "trim_ws '' Al '' = ''Al''"
    by (simp_all add: trim_ws_def is_ws_def)
  show ?thesis
    using submitBookRoom_name_rule [of "blank_page\<lparr>bookingName := Str ''   ''\<rparr>"
        loadLocalBookings saveLocalBookings
        "\<lparr>stored = [], accesses = []\<rparr>" "\<lparr>stored = [], accesses = []\<rparr>" "''   ''"]
      submitBookRoom_name_rule [of "blank_page\<lparr>bookingName := Str '' Al '', roomSelection := Str ''101'',
           checkinDate := Str ''2024-06-01'', checkoutDate := Str ''2024-06-03''\<rparr>"
        loadLocalBookings saveLocalBookings
        "\<lparr>stored = [], accesses = []\<rparr>" "\<lparr>stored = [], accesses = []\<rparr>" "'' Al ''"]
    by (simp add: a loadLocalBookings_def saveLocalBookings_def)
qed

section \<open>C8: the two parsers\<close>

text \<open>
  Claim C8 says that a record with malformed or missing sub-fields is still produced,
  every affected field being the empty string. The records are produced, but a date that
  is missing is not the empty string: the empty day and month compare below 10 and get
  their zero, which gives \<^verbatim>\<open>-0-0\<close>; and a day that is no number is copied as it is.
\<close>

theorem parseBookingXML_missing_date_counterexample:
  "parseBookingXML (Element ''roomBookings'' [Element ''booking'' [Element ''number'' [Text ''101'']]])
     = [\<lparr>number = ''101'', checkin = ''-0-0'', checkout = ''-0-0''\<rparr>]
   \<and> checkin (hd (parseBookingXML
        (Element ''roomBookings'' [Element ''booking'' [Element ''number'' [Text ''101'']]]))) \<noteq> []
   \<and> parseBookingXML (Element ''roomBookings'' [Element ''booking'' [Element ''number'' [Text ''101''],
        Element ''checkin'' [Element ''day'' [Text ''x''], Element ''month'' [Text ''6''],
          Element ''year'' [Text ''2024'']]]])
     = [\<lparr>number = ''101'', checkin = ''2024-06-x'', checkout = ''-0-0''\<rparr>]"
  by code_simp

text \<open>
  Claim C8, amended. \<open>parseBookingXML\<close> and \<open>parseRoomXML\<close> give one record for every
  \<^verbatim>\<open>booking\<close> and every \<^verbatim>\<open>hotelRoom\<close> element of the document, in document order,
  whatever the element holds. In the record of an element, a missing \<^verbatim>\<open>number\<close>,
  \<^verbatim>\<open>roomType\<close> or \<^verbatim>\<open>pricePerNight\<close> is the empty string, and a missing \<^verbatim>\<open>checkin\<close> or
  \<^verbatim>\<open>checkout\<close> is the string \<^verbatim>\<open>-0-0\<close>, as is every date whose day, month and year have
  no text.
\<close>

theorem parsers_keep_every_record:
  "length (parseBookingXML data) = length (jq_find ''booking'' [data])
   \<and> length (parseRoomXML data) = length (jq_find ''hotelRoom'' [data])
   \<and> (i < length (jq_find ''booking'' [data]) \<longrightarrow>
        (jq_find ''number'' [jq_find ''booking'' [data] ! i] = [] \<longrightarrow>
           number (parseBookingXML data ! i) = [])
      \<and> (jq_find ''checkin'' [jq_find ''booking'' [data] ! i] = [] \<longrightarrow>
           checkin (parseBookingXML data ! i) = ''-0-0'')
      \<and> (jq_find ''checkout'' [jq_find ''booking'' [data] ! i] = [] \<longrightarrow>
           checkout (parseBookingXML data ! i) = ''-0-0''))
   \<and> (i < length (jq_find ''hotelRoom'' [data]) \<longrightarrow>
        (jq_find ''number'' [jq_find ''hotelRoom'' [data] ! i] = [] \<longrightarrow>
           room_number (parseRoomXML data ! i) = [])
      \<and> (jq_find ''roomType'' [jq_find ''hotelRoom'' [data] ! i] = [] \<longrightarrow>
           room_type (parseRoomXML data ! i) = [])
      \<and> (jq_find ''pricePerNight'' [jq_find ''hotelRoom'' [data] ! i] = [] \<longrightarrow>
           room_price (parseRoomXML data ! i) = []))
   \<and> (jq_text (jq_find ''day'' d) = [] \<and> jq_text (jq_find ''month'' d) = []
        \<and> jq_text (jq_find ''year'' d) = [] \<longrightarrow> makeDateFromXML d = ''-0-0'')"
  by (simp add: parseBookingXML_def parseRoomXML_def makeDateFromXML_Nil makeDateFromXML_no_text
      jq_text_def)

theorem parsers_keep_every_record_witness:
  "jq_find ''booking'' [Element ''roomBookings''
       [Element ''booking'' [Element ''number'' [Text ''101'']], Element ''booking'' []]]
     = [Element ''booking'' [Element ''number'' [Text ''101'']], Element ''booking'' []]
   \<and> parseBookingXML (Element ''roomBookings''
       [Element ''booking'' [Element ''number'' [Text ''101'']], Element ''booking'' []])
     = [\<lparr>number = ''101'', checkin = ''-0-0'', checkout = ''-0-0''\<rparr>,
        \<lparr>number = [], checkin = ''-0-0'', checkout = ''-0-0''\<rparr>]
   \<and> parseRoomXML (Element ''hotelRooms'' [Element ''hotelRoom'' []])
     = [\<lparr>room_number = [], room_type = [], room_price = []\<rparr>]"
proof -
  let ?B = "Element ''roomBookings''
       [Element ''booking'' [Element ''number'' [Text ''101'']], Element ''booking'' []]"
  let ?R = "Element ''hotelRooms'' [Element ''hotelRoom'' []]"
  have f: "jq_find ''booking'' [?B]
     = [Element ''booking'' [Element ''number'' [Text ''101'']], Element ''booking'' []]"
    "jq_find ''hotelRoom'' [?R] = [Element ''hotelRoom'' []]"
    by (simp_all add: jq_find_def)
  have g: "jq_find ''number'' [Element ''booking'' []] = []"
    "jq_find ''checkin'' [Element ''booking'' []] = []"
    "jq_find ''checkout'' [Element ''booking'' []] = []"
    "jq_find ''checkin'' [Element ''booking'' [Element ''number'' [Text ''101'']]] = []"
    "jq_find ''checkout'' [Element ''booking'' [Element ''number'' [Text ''101'']]] = []"
    "jq_find ''number'' [Element ''hotelRoom'' []] = []"
    "jq_find ''roomType'' [Element ''hotelRoom'' []] = []"
    "jq_find ''pricePerNight'' [Element ''hotelRoom'' []] = []"
    by (simp_all add: jq_find_def)
  have n: "number (parseBookingXML ?B ! 0) = ''101''"
    by (simp add: parseBookingXML_def jq_find_def jq_text_def)
  note b0 = parsers_keep_every_record [of ?B 0 "[]"]
  note b1 = parsers_keep_every_record [of ?B 1 "[]"]
  note r0 = parsers_keep_every_record [of ?R 0 "[]"]
  have lb: "length (parseBookingXML ?B) = 2" using b0 by (simp add: f)
  have lr: "length (parseRoomXML ?R) = 1" using r0 by (simp add: f)
  have e0: "checkin (parseBookingXML ?B ! 0) = ''-0-0''" "checkout (parseBookingXML ?B ! 0) = ''-0-0''"
    using b0 by (simp_all add: f g)
  have e1: "number (parseBookingXML ?B ! 1) = []" "checkin (parseBookingXML ?B ! 1) = ''-0-0''"
    "checkout (parseBookingXML ?B ! 1) = ''-0-0''"
    using b1 by (simp_all add: f g)
  have e2: "room_number (parseRoomXML ?R ! 0) = []" "room_type (parseRoomXML ?R ! 0) = []"
    "room_price (parseRoomXML ?R ! 0) = []"
    using r0 by (simp_all add: f g)
  have pb: "parseBookingXML ?B = [parseBookingXML ?B ! 0, parseBookingXML ?B ! 1]"
    using lb by (cases "parseBookingXML ?B"; cases "tl (parseBookingXML ?B)") auto
  have pr: "parseRoomXML ?R = [parseRoomXML ?R ! 0]"
    using lr by (cases "parseRoomXML ?R") auto
  have "parseBookingXML ?B ! 0 = \<lparr>number = ''101'', checkin = ''-0-0'', checkout = ''-0-0''\<rparr>"
    using n e0 by (cases "parseBookingXML ?B ! 0") simp
  moreover have "parseBookingXML ?B ! 1 = \<lparr>number = [], checkin = ''-0-0'', checkout = ''-0-0''\<rparr>"
    using e1 by (cases "parseBookingXML ?B ! 1") simp
  moreover have "parseRoomXML ?R ! 0 = \<lparr>room_number = [], room_type = [], room_price = []\<rparr>"
    using e2 by (cases "parseRoomXML ?R ! 0") simp
  ultimately show ?thesis using pb pr f by simp
qed

section \<open>C9: the room search\<close>

text \<open>
  Claim C9. For every list of rooms, list of bookings and pair of dates, the filtering
  step of the room search appends to the room selector the options of exactly the rooms
  that \<open>checkAvailable\<close> accepts for the two dates and the bookings, in the order of the
  room list. \<open>setupBookRoom\<close> runs that step on the parsed rooms and bookings once both
  responses are there, and does nothing when one of them is missing. (Three rooms of which
  the second is booked for the dates give the first and the third.)
\<close>

theorem room_search_filters_in_order:
  "roomSelectionOptions (showRooms ci co rooms bookings p) =
     roomSelectionOptions p @
       map (\<lambda>r. (room_number r, room_number r @ '': '' @ room_price r))
         (filter (\<lambda>r. checkAvailable (room_number r) ci co bookings) rooms)
   \<and> setupBookRoom ci co (Some hotelRooms) (Some roomBookings) p =
       showRooms ci co (parseRoomXML hotelRooms) (parseBookingXML roomBookings) p
   \<and> setupBookRoom ci co None response p = p
   \<and> setupBookRoom ci co response None p = p"
  by (simp add: showRooms_def foldl_appendRoom setupBookRoom_def Let_def split: option.splits)

theorem room_search_filters_in_order_witness:
  "roomSelectionOptions
     (setupBookRoom ''2024-06-02'' ''2024-06-04''
        (Some (Element ''hotelRooms''
           [Element ''hotelRoom'' [Element ''number'' [Text ''101''],
              Element ''roomType'' [Text ''Single''], Element ''pricePerNight'' [Text ''100'']],
            Element ''hotelRoom'' [Element ''number'' [Text ''102''],
              Element ''roomType'' [Text ''Double''], Element ''pricePerNight'' [Text ''150'']],
            Element ''hotelRoom'' [Element ''number'' [Text ''103''],
              Element ''roomType'' [Text ''Suite''], Element ''pricePerNight'' [Text ''200'']]]))
        (Some (Element ''roomBookings''
           [Element ''booking'' [Element ''number'' [Text ''102''],
              Element ''checkin'' [Element ''day'' [Text ''1''], Element ''month'' [Text ''6''],
                Element ''year'' [Text ''2024'']],
              Element ''checkout'' [Element ''day'' [Text ''10''], Element ''month'' [Text ''6''],
                Element ''year'' [Text ''2024'']]]]))
        blank_page)
   = [(''101'', ''101: 100''), (''103'', ''103: 200'')]"
proof -
  let ?R = "Element ''hotelRooms''
           [Element ''hotelRoom'' [Element ''number'' [Text ''101''],
              Element ''roomType'' [Text ''Single''], Element ''pricePerNight'' [Text ''100'']],
            Element ''hotelRoom'' [Element ''number'' [Text ''102''],
              Element ''roomType'' [Text ''Double''], Element ''pricePerNight'' [Text ''150'']],
            Element ''hotelRoom'' [Element ''number'' [Text ''103''],
              Element ''roomType'' [Text ''Suite''], Element ''pricePerNight'' [Text ''200'']]]"
  let ?B = "Element ''roomBookings''
           [Element ''booking'' [Element ''number'' [Text ''102''],
              Element ''checkin'' [Element ''day'' [Text ''1''], Element ''month'' [Text ''6''],
                Element ''year'' [Text ''2024'']],
              Element ''checkout'' [Element ''day'' [Text ''10''], Element ''month'' [Text ''6''],
                Element ''year'' [Text ''2024'']]]]"
  have r: "parseRoomXML ?R =
      [\<lparr>room_number = ''101'', room_type = ''Single'', room_price = ''100''\<rparr>,
       \<lparr>room_number = ''102'', room_type = ''Double'', room_price = ''150''\<rparr>,
       \<lparr>room_number = ''103'', room_type = ''Suite'', room_price = ''200''\<rparr>]"
    by code_simp
  have b: "parseBookingXML ?B =
      [\<lparr>number = ''102'', checkin = ''2024-06-01'', checkout = ''2024-06-10''\<rparr>]"
    by code_simp
  show ?thesis
    using room_search_filters_in_order [of "''2024-06-02''" "''2024-06-04''" "parseRoomXML ?R"
        "parseBookingXML ?B" blank_page ?R ?B]
    by (simp add: r b blank_page_def)
qed

section \<open>C10: a rejected booking leaves the store alone\<close>

text \<open>
  Claim C10. \<open>submitBookRoom\<close> rejects a submission exactly when the guest name is
  empty after trimming, and then the local booking store is neither read nor written: the
  store it returns is the store it was given, whatever the load and save functions are,
  and on the specification's store neither the list nor the record of accesses changes.
\<close>

theorem submitBookRoom_rejected_store_untouched:
  "(fst (submitBookRoom load save p st) = False \<longleftrightarrow> trim (bookingName p) = [])
   \<and> (trim (bookingName p) = [] \<longrightarrow>
        snd (snd (submitBookRoom load save p st)) = st
        \<and> stored (snd (snd (submitBookRoom loadLocalBookings saveLocalBookings p st'))) = stored st'
        \<and> accesses (snd (snd (submitBookRoom loadLocalBookings saveLocalBookings p st'))) = accesses st')"
  by (simp add: submitBookRoom_def Let_def truthy_def split: prod.splits)

theorem submitBookRoom_rejected_store_untouched_witness:
  "trim (bookingName (blank_page\<lparr>bookingName := Str ''   ''\<rparr>)) = []
   \<and> fst (submitBookRoom loadLocalBookings saveLocalBookings (blank_page\<lparr>bookingName := Str ''   ''\<rparr>)
        \<lparr>stored = [\<lparr>nb_number = Str ''7'', nb_checkin = Str ''2024-01-01'',
                     nb_checkout = Str ''2024-01-02'', nb_name = ''Bo''\<rparr>], accesses = [Load]\<rparr>) = False
   \<and> snd (snd (submitBookRoom loadLocalBookings saveLocalBookings
        (blank_page\<lparr>bookingName := Str ''   ''\<rparr>)
        \<lparr>stored = [\<lparr>nb_number = Str ''7'', nb_checkin = Str ''2024-01-01'',
                     nb_checkout = Str ''2024-01-02'', nb_name = ''Bo''\<rparr>], accesses = [Load]\<rparr>))
       = \<lparr>stored = [\<lparr>nb_number = Str ''7'', nb_checkin = Str ''2024-01-01'',
                     nb_checkout = Str ''2024-01-02'', nb_name = ''Bo''\<rparr>], accesses = [Load]\<rparr>"
proof -
  have a: "trim (bookingName (blank_page\<lparr>bookingName := Str ''   ''\<rparr>)) = []"
    by (simp add: trim_ws_def is_ws_def)
  show ?thesis
    using submitBookRoom_rejected_store_untouched
      [of loadLocalBookings saveLocalBookings "blank_page\<lparr>bookingName := Str ''   ''\<rparr>"
        "\<lparr>stored = [\<lparr>nb_number = Str ''7'', nb_checkin = Str ''2024-01-01'',
                     nb_checkout = Str ''2024-01-02'', nb_name = ''Bo''\<rparr>], accesses = [Load]\<rparr>"
        "\<lparr>stored = [\<lparr>nb_number = Str ''7'', nb_checkin = Str ''2024-01-01'',
                     nb_checkout = Str ''2024-01-02'', nb_name = ''Bo''\<rparr>], accesses = [Load]\<rparr>"] a
    by simp
qed

end
